theory Spec2Isabelle
  imports Complex_Main "HOL-Library.Sublist"
begin

section \<open>JobPilotAI: a shallow embedding of the Python sources\<close>

text \<open>
  Each definition below embeds one function of the repository. Python's dynamically
  typed values are given the types the code expects (a credential is a string, a counter
  an integer); a \<^verbatim>\<open>float\<close> is read as the exact rational it stands for; the clock
  (\<^verbatim>\<open>date.today()\<close>, \<^verbatim>\<open>datetime.now()\<close>, \<^verbatim>\<open>time.time()\<close>) is an extra argument
  of every function that reads it. Strings are byte strings and the string helpers treat
  ASCII only.
\<close>

subsection \<open>Python string operations\<close>

text \<open>\<^verbatim>\<open>value[:n]\<close>: a negative bound counts from the end.\<close>

definition slice_to :: "'a list \<Rightarrow> int \<Rightarrow> 'a list" where
  "slice_to xs n =
     (if 0 \<le> n then take (nat n) xs else take (length xs - nat (- n)) xs)"

text \<open>\<^verbatim>\<open>str.lower()\<close> on ASCII letters.\<close>

definition lower_char :: "char \<Rightarrow> char" where
  "lower_char c =
     (case map_of (zip ''ABCDEFGHIJKLMNOPQRSTUVWXYZ'' ''abcdefghijklmnopqrstuvwxyz'') c of
        None \<Rightarrow> c
      | Some l \<Rightarrow> l)"

definition lower :: "string \<Rightarrow> string" where
  "lower s = map lower_char s"

text \<open>
  The ASCII characters that \<^verbatim>\<open>str.strip()\<close>, \<^verbatim>\<open>str.split()\<close> and the regular
  expression class \<^verbatim>\<open>\s\<close> take as whitespace: tab, line feed, vertical tab, form
  feed, carriage return, the four separators 0x1C to 0x1F, and the space.
\<close>

definition is_space :: "char \<Rightarrow> bool" where
  "is_space c \<longleftrightarrow>
     c \<in> set [CHR 0x09, CHR 0x0A, CHR 0x0B, CHR 0x0C, CHR 0x0D,
               CHR 0x1C, CHR 0x1D, CHR 0x1E, CHR 0x1F, CHR '' '']"

definition rstrip_where :: "(char \<Rightarrow> bool) \<Rightarrow> string \<Rightarrow> string" where
  "rstrip_where p s = rev (dropWhile p (rev s))"

definition strip :: "string \<Rightarrow> string" where
  "strip s = rstrip_where is_space (dropWhile is_space s)"

text \<open>\<^verbatim>\<open>sub in s\<close> on strings: \<open>sub\<close> occurs in \<open>s\<close> as a contiguous run.\<close>

fun occurs_in :: "string \<Rightarrow> string \<Rightarrow> bool" where
  "occurs_in sub [] = (sub = [])"
| "occurs_in sub (c # cs) = (prefix sub (c # cs) \<or> occurs_in sub cs)"

text \<open>
  \<^verbatim>\<open>s.split()\<close>: the maximal runs of characters that are not whitespace. The first
  argument holds the run being read, last character first.
\<close>

fun split_from :: "string \<Rightarrow> string \<Rightarrow> string list" where
  "split_from cur [] = (if cur = [] then [] else [rev cur])"
| "split_from cur (c # cs) =
     (if is_space c
      then (if cur = [] then split_from [] cs else rev cur # split_from [] cs)
      else split_from (c # cur) cs)"

definition split :: "string \<Rightarrow> string list" where
  "split s = split_from [] s"

text \<open>
  \<^verbatim>\<open>s.replace(old, new)\<close> for a non-empty \<open>old\<close>: every occurrence, from the left,
  without overlaps.
\<close>

function replace :: "string \<Rightarrow> string \<Rightarrow> string \<Rightarrow> string" where
  "replace old new [] = []"
| "replace old new (c # cs) =
     (if old \<noteq> [] \<and> prefix old (c # cs)
      then new @ replace old new (drop (length old) (c # cs))
      else c # replace old new cs)"
  by pat_completeness auto
termination
  by (relation "measure (\<lambda>(old, new, s). length s)") (auto simp: Suc_le_eq)

subsection \<open>security.py\<close>

text \<open>
  \<^verbatim>\<open>
  def mask_credential(value: str, visible_chars: int = 4) -> str:
      if not value or not isinstance(value, str):
          return "[EMPTY]"
      if len(value) <= visible_chars:
          return "***"
      return value[:visible_chars] + "***"
  \<close>
\<close>

definition mask_credential :: "string \<Rightarrow> int \<Rightarrow> string" where
  "mask_credential val visible_chars =
     (if val = [] then ''[EMPTY]''
      else if int (length val) \<le> visible_chars then ''***''
      else slice_to val visible_chars @ ''***'')"

subsection \<open>rate\_limiter.py\<close>

record rate =
  min_delay :: rat
  max_delay :: rat
  daily_cap :: int
  backoff_factor :: rat

definition mk_rate :: "rat \<Rightarrow> rat \<Rightarrow> int \<Rightarrow> rat \<Rightarrow> rate" where
  "mk_rate lo hi cap f =
     \<lparr>min_delay = lo, max_delay = hi, daily_cap = cap, backoff_factor = f\<rparr>"

definition DEFAULT_BOARD_RATES :: "(string \<times> rate) list" where
  "DEFAULT_BOARD_RATES =
   [(''indeed'', mk_rate 3 7 200 2),
    (''linkedin'', mk_rate 5 10 150 (5 / 2)),
    (''glassdoor'', mk_rate 4 8 150 2),
    (''ziprecruiter'', mk_rate 3 6 200 2),
    (''monster'', mk_rate 2 5 250 (3 / 2)),
    (''careerbuilder'', mk_rate 2 5 250 (3 / 2)),
    (''dice'', mk_rate 2 5 200 (3 / 2)),
    (''builtin'', mk_rate 2 4 200 (3 / 2)),
    (''wellfound'', mk_rate 3 6 150 2),
    (''biospace'', mk_rate 2 4 200 (3 / 2)),
    (''usajobs'', mk_rate 1 3 300 (3 / 2)),
    (''clearancejobs'', mk_rate 2 5 200 (3 / 2)),
    (''flexjobs'', mk_rate 3 6 150 2),
    (''weworkremotely'', mk_rate 1 3 200 (3 / 2)),
    (''remoteok'', mk_rate 1 3 200 (3 / 2)),
    (''ycombinator'', mk_rate 2 5 200 2),
    (''simplyhired'', mk_rate 2 5 200 (3 / 2)),
    (''adzuna'', mk_rate 1 3 300 (3 / 2)),
    (''themuse'', mk_rate 1 3 300 (3 / 2)),
    (''jooble'', mk_rate 2 5 200 (3 / 2)),
    (''career_page'', mk_rate 2 5 500 (3 / 2)),
    (''default'', mk_rate 2 5 200 2)]"

text \<open>
  The limiter's state. A \<^verbatim>\<open>defaultdict(int)\<close> is a total function that is 0 where
  nothing was stored, and \<^verbatim>\<open>clear()\<close> makes it 0 everywhere. A date is the number of
  its day. The lock is not modelled: calls are taken one at a time.
\<close>

record limiter =
  rates :: "string \<rightharpoonup> rate"
  last_request :: "string \<Rightarrow> rat"
  daily_counts :: "string \<Rightarrow> int"
  daily_date :: nat
  backoff_level :: "string \<Rightarrow> int"

text \<open>
  \<^verbatim>\<open>RateLimiter.__init__(custom_rates)\<close> on the day \<open>today\<close>: the defaults,
  overridden by the custom rates.
\<close>

definition RateLimiter_init :: "(string \<times> rate) list \<Rightarrow> nat \<Rightarrow> limiter" where
  "RateLimiter_init custom_rates today =
     \<lparr>rates = map_of DEFAULT_BOARD_RATES ++ map_of custom_rates,
      last_request = (\<lambda>_. 0),
      daily_counts = (\<lambda>_. 0),
      daily_date = today,
      backoff_level = (\<lambda>_. 0)\<rparr>"

text \<open>
  \<^verbatim>\<open>self.rates.get(board, self.rates["default"])\<close>: the default is looked up before
  \<^verbatim>\<open>get\<close> is called, so a table without \<^verbatim>\<open>"default"\<close> raises KeyError (\<open>None\<close>)
  for every board.
\<close>

definition get_rate :: "limiter \<Rightarrow> string \<Rightarrow> rate option" where
  "get_rate s board =
     (case rates s ''default'' of
        None \<Rightarrow> None
      | Some d \<Rightarrow> Some (case rates s board of None \<Rightarrow> d | Some r \<Rightarrow> r))"

text \<open>
  \<^verbatim>\<open>
  def _reset_daily_if_needed(self):
      today = date.today()
      if today != self._daily_date:
          self._daily_counts.clear()
          self._backoff_level.clear()
          self._daily_date = today
  \<close>
\<close>

definition reset_daily_if_needed :: "limiter \<Rightarrow> nat \<Rightarrow> limiter" where
  "reset_daily_if_needed s today =
     (if today \<noteq> daily_date s
      then s\<lparr>daily_counts := (\<lambda>_. 0), backoff_level := (\<lambda>_. 0), daily_date := today\<rparr>
      else s)"

text \<open>
  \<^verbatim>\<open>can_request\<close> returns its answer and the state (the reset is an effect).
  \<^verbatim>\<open>
  self._reset_daily_if_needed()
  rate = self._get_rate(board)
  return self._daily_counts[board] < rate["daily_cap"]
  \<close>
\<close>

definition can_request :: "limiter \<Rightarrow> nat \<Rightarrow> string \<Rightarrow> (bool \<times> limiter) option" where
  "can_request s today board =
     (let s1 = reset_daily_if_needed s today in
      case get_rate s1 board of
        None \<Rightarrow> None
      | Some r \<Rightarrow> Some (daily_counts s1 board < daily_cap r, s1))"

text \<open>
  \<^verbatim>\<open>wait(board)\<close> on the day \<open>today\<close>; \<open>t\<close> is \<^verbatim>\<open>time.time()\<close> after the sleep.
  The random delay and the sleep change neither the answer nor the counters and are left
  out.
  \<^verbatim>\<open>
  with self._lock:
      self._reset_daily_if_needed()
      rate = self._get_rate(board)
      if self._daily_counts[board] >= rate["daily_cap"]:
          return False
      ...
      self._daily_counts[board] += 1
  if wait_time > 0:
      time.sleep(wait_time)
  with self._lock:
      self._last_request[board] = time.time()
  return True
  \<close>
\<close>

definition wait :: "limiter \<Rightarrow> nat \<Rightarrow> rat \<Rightarrow> string \<Rightarrow> (bool \<times> limiter) option" where
  "wait s today t board =
     (let s1 = reset_daily_if_needed s today in
      case get_rate s1 board of
        None \<Rightarrow> None
      | Some r \<Rightarrow>
          if daily_counts s1 board \<ge> daily_cap r then Some (False, s1)
          else
            let s2 = s1\<lparr>daily_counts := (daily_counts s1)(board := daily_counts s1 board + 1)\<rparr>
            in Some (True, s2\<lparr>last_request := (last_request s2)(board := t)\<rparr>))"

text \<open>
  \<^verbatim>\<open>
  def report_success(self, board):
      if self._backoff_level[board] > 0:
          self._backoff_level[board] -= 1
  def report_throttled(self, board):
      self._backoff_level[board] = min(self._backoff_level[board] + 1, 5)
  def report_blocked(self, board):
      self._backoff_level[board] = 5
  \<close>
\<close>

definition report_success :: "limiter \<Rightarrow> string \<Rightarrow> limiter" where
  "report_success s board =
     (if backoff_level s board > 0
      then s\<lparr>backoff_level := (backoff_level s)(board := backoff_level s board - 1)\<rparr>
      else s)"

definition report_throttled :: "limiter \<Rightarrow> string \<Rightarrow> limiter" where
  "report_throttled s board =
     s\<lparr>backoff_level := (backoff_level s)(board := min (backoff_level s board + 1) 5)\<rparr>"

definition report_blocked :: "limiter \<Rightarrow> string \<Rightarrow> limiter" where
  "report_blocked s board = s\<lparr>backoff_level := (backoff_level s)(board := 5)\<rparr>"

text \<open>A sequence of reports, applied from left to right.\<close>

datatype report = Success string | Throttled string | Blocked string

fun apply_report :: "limiter \<Rightarrow> report \<Rightarrow> limiter" where
  "apply_report s (Success b) = report_success s b"
| "apply_report s (Throttled b) = report_throttled s b"
| "apply_report s (Blocked b) = report_blocked s b"

definition apply_reports :: "limiter \<Rightarrow> report list \<Rightarrow> limiter" where
  "apply_reports s rs = foldl apply_report s rs"

subsection \<open>scheduler.py\<close>

text \<open>
  The schedule is the JSON document of \<^verbatim>\<open>schedule_config.json\<close> (or
  \<^verbatim>\<open>DEFAULT_SCHEDULE\<close>): a dictionary from task names to dictionaries of JSON values.
  The values a task holds are \<^verbatim>\<open>null\<close>, booleans, integers, strings and lists.
\<close>

datatype json = JNull | JBool bool | JInt int | JStr string | JList "json list"

type_synonym task = "(string \<times> json) list"
type_synonym schedule = "(string \<times> task) list"

definition weekdays :: json where
  "weekdays = JList [JStr ''mon'', JStr ''tue'', JStr ''wed'', JStr ''thu'', JStr ''fri'']"

definition DEFAULT_SCHEDULE :: schedule where
  "DEFAULT_SCHEDULE =
   [(''discovery'',
       [(''enabled'', JBool True), (''frequency'', JStr ''twice_daily''),
        (''times'', JList [JStr ''08:00'', JStr ''14:00'']), (''days'', weekdays),
        (''max_boards_per_run'', JInt 10)]),
    (''apply'',
       [(''enabled'', JBool False), (''frequency'', JStr ''once_daily''),
        (''times'', JList [JStr ''09:00'']), (''days'', weekdays),
        (''max_per_run'', JInt 10), (''mode'', JStr ''semi-auto'')]),
    (''digest'',
       [(''enabled'', JBool True), (''frequency'', JStr ''once_daily''),
        (''times'', JList [JStr ''18:00'']), (''days'', weekdays)])]"

text \<open>Python's truth value of a JSON value.\<close>

fun truthy :: "json \<Rightarrow> bool" where
  "truthy JNull = False"
| "truthy (JBool b) = b"
| "truthy (JInt n) = (n \<noteq> 0)"
| "truthy (JStr s) = (s \<noteq> [])"
| "truthy (JList xs) = (xs \<noteq> [])"

text \<open>\<^verbatim>\<open>d.get(key)\<close> and \<^verbatim>\<open>d.get(key, default)\<close>; a missing key gives \<^verbatim>\<open>None\<close>.\<close>

definition dict_get :: "(string \<times> json) list \<Rightarrow> string \<Rightarrow> json" where
  "dict_get d k = (case map_of d k of None \<Rightarrow> JNull | Some v \<Rightarrow> v)"

definition dict_get_default :: "(string \<times> json) list \<Rightarrow> string \<Rightarrow> json \<Rightarrow> json" where
  "dict_get_default d k dflt = (case map_of d k of None \<Rightarrow> dflt | Some v \<Rightarrow> v)"

text \<open>\<^verbatim>\<open>self.schedule.get(task_name, {})\<close>.\<close>

definition get_task :: "schedule \<Rightarrow> string \<Rightarrow> task" where
  "get_task sched task_name = (case map_of sched task_name of None \<Rightarrow> [] | Some t \<Rightarrow> t)"

text \<open>The elements of a JSON list; \<^verbatim>\<open>days\<close> and \<^verbatim>\<open>times\<close> are lists.\<close>

fun items :: "json \<Rightarrow> json list" where
  "items (JList xs) = xs"
| "items _ = []"

text \<open>
  What \<^verbatim>\<open>should_run\<close> reads from the clock and from \<^verbatim>\<open>last_run\<close>: the lowercase
  day name, whether \<^verbatim>\<open>now\<close> lies in the window from two minutes before to five
  minutes after a scheduled time, and whether the task already ran for that time less
  than 300 seconds ago.
\<close>

record clock =
  current_day :: string
  in_window :: "json \<Rightarrow> bool"
  ran_recently :: "string \<Rightarrow> json \<Rightarrow> bool"

fun scan_times :: "clock \<Rightarrow> string \<Rightarrow> json list \<Rightarrow> bool" where
  "scan_times ck task_name [] = False"
| "scan_times ck task_name (t # ts) =
     (if in_window ck t
      then (if ran_recently ck task_name t then False else True)
      else scan_times ck task_name ts)"

text \<open>
  \<^verbatim>\<open>
  def should_run(self, task_name):
      task = self.schedule.get(task_name, {})
      if not task.get("enabled", False):
          return False
      ...
      allowed_days = task.get("days", ["mon", "tue", "wed", "thu", "fri"])
      if current_day not in allowed_days:
          return False
      times = task.get("times", [])
      for t in times:
          ...
          if window_start <= now <= window_end:
              last = self.last_run.get(f"{task_name}_{t}")
              if last and (now - last).total_seconds() < 300:
                  return False
              return True
      return False
  \<close>
\<close>

definition should_run :: "schedule \<Rightarrow> clock \<Rightarrow> string \<Rightarrow> bool" where
  "should_run sched ck task_name =
     (let task = get_task sched task_name in
      if \<not> truthy (dict_get_default task ''enabled'' (JBool False)) then False
      else if JStr (current_day ck) \<notin> set (items (dict_get_default task ''days'' weekdays))
      then False
      else scan_times ck task_name (items (dict_get_default task ''times'' (JList []))))"

text \<open>
  The apply step of \<^verbatim>\<open>run_once\<close>. Its effect is the call
  \<^verbatim>\<open>engine.process_queue(limit=..., dry_run=...)\<close> on an engine whose \<^verbatim>\<open>mode\<close> was
  set just before; the model returns that call, or \<open>None\<close> when the task is not due.
  \<^verbatim>\<open>
  if self.should_run("apply"):
      apply_config = self.schedule.get("apply", {})
      engine = ApplyEngine(config, self.config_dir)
      engine.mode = apply_config.get("mode", "semi-auto")
      results = await engine.process_queue(
          limit=apply_config.get("max_per_run", 10),
          dry_run=apply_config.get("mode") == "semi-auto")
  \<close>
\<close>

record process_queue_call =
  engine_mode :: json
  limit :: json
  dry_run :: bool

definition run_once_apply :: "schedule \<Rightarrow> clock \<Rightarrow> process_queue_call option" where
  "run_once_apply sched ck =
     (if should_run sched ck ''apply''
      then
        let apply_config = get_task sched ''apply'' in
        Some \<lparr>engine_mode = dict_get_default apply_config ''mode'' (JStr ''semi-auto''),
              limit = dict_get_default apply_config ''max_per_run'' (JInt 10),
              dry_run = (dict_get apply_config ''mode'' = JStr ''semi-auto'')\<rparr>
      else None)"

subsection \<open>qa\_bank.py\<close>

text \<open>
  An entry of the bank: \<^verbatim>\<open>question\<close> and \<^verbatim>\<open>answer\<close> are always read with
  \<^verbatim>\<open>entry[...]\<close>; the other keys are read with \<^verbatim>\<open>get\<close> and may be missing.
\<close>

record qa_entry =
  question :: string
  answer :: string
  aliases :: "string list option"
  field_type :: "string option"
  category :: "string option"

text \<open>
  A job context handed to \<^verbatim>\<open>get_answer\<close>: a dictionary that is not empty; each of
  the keys read from it may be missing.
\<close>

record job_context =
  ctx_company :: "string option"
  ctx_title :: "string option"
  ctx_location :: "string option"
  ctx_description :: "string option"
  ctx_linkedin_url :: "string option"
  ctx_website_url :: "string option"

record qa_result =
  res_answer :: string
  confidence :: rat
  res_field_type :: string
  res_category :: string
  source_question :: string

definition or_default :: "'a option \<Rightarrow> 'a \<Rightarrow> 'a" where
  "or_default v dflt = (case v of None \<Rightarrow> dflt | Some x \<Rightarrow> x)"

text \<open>
  \<^verbatim>\<open>_infer_domain\<close> looks for keywords in
  \<^verbatim>\<open>f"{title} {company} {description}".lower()\<close>, and \<^verbatim>\<open>_fill_template\<close> replaces
  the placeholders one after the other.
\<close>

definition infer_domain :: "job_context \<Rightarrow> string" where
  "infer_domain context =
     (let text = lower (or_default (ctx_title context) '''' @ '' '' @
                        or_default (ctx_company context) '''' @ '' '' @
                        or_default (ctx_description context) '''') in
      if \<exists>w \<in> set [''biotech'', ''pharma'', ''clinical'']. occurs_in w text
      then ''biotechnology''
      else if \<exists>w \<in> set [''ai'', ''ml'', ''machine learning'']. occurs_in w text
      then ''AI/ML''
      else if \<exists>w \<in> set [''defense'', ''aerospace'']. occurs_in w text
      then ''defense/aerospace''
      else if \<exists>w \<in> set [''saas'', ''software'']. occurs_in w text
      then ''SaaS''
      else ''technology'')"

definition fill_template :: "string \<Rightarrow> job_context \<Rightarrow> string" where
  "fill_template ans context =
     foldl (\<lambda>a (key, val). replace key val a) ans
       [(''{company}'', or_default (ctx_company context) ''your company''),
        (''{role}'', or_default (ctx_title context) ''this role''),
        (''{location}'', or_default (ctx_location context) ''''),
        (''{domain_fit}'', infer_domain context),
        (''{linkedin_url}'', or_default (ctx_linkedin_url context) ''''),
        (''{website_url}'', or_default (ctx_website_url context) '''')]"

text \<open>
  \<^verbatim>\<open>
  q_lower = question_text.lower().strip()
  q_lower = re.sub(r'[*:?\s]+$', '', q_lower)
  \<close>
  The substitution removes the longest run of \<^verbatim>\<open>*\<close>, \<^verbatim>\<open>:\<close>, \<^verbatim>\<open>?\<close> and whitespace
  at the end of the string.
\<close>

definition normalize_question :: "string \<Rightarrow> string" where
  "normalize_question question_text =
     rstrip_where (\<lambda>c. c \<in> set ''*:?'' \<or> is_space c) (strip (lower question_text))"

text \<open>
  The state of the scoring loop is the pair \<^verbatim>\<open>(best_match, best_score)\<close>. The alias
  loop of one entry:
  \<^verbatim>\<open>
  for alias in entry.get("aliases", []):
      if alias.lower() in q_lower or q_lower in alias.lower():
          score = len(alias) / max(len(q_lower), 1)
          if score > best_score:
              best_match = entry
              best_score = min(score, 0.95)
  \<close>
\<close>

fun alias_loop ::
  "string \<Rightarrow> qa_entry \<Rightarrow> string list \<Rightarrow> qa_entry option \<times> rat \<Rightarrow> qa_entry option \<times> rat"
where
  "alias_loop q_lower entry [] best = best"
| "alias_loop q_lower entry (alias # rest) (best_match, best_score) =
     (if occurs_in (lower alias) q_lower \<or> occurs_in q_lower (lower alias)
      then
        let score = rat_of_nat (length alias) / rat_of_nat (max (length q_lower) 1) in
        if score > best_score
        then alias_loop q_lower entry rest (Some entry, min score (95 / 100))
        else alias_loop q_lower entry rest (best_match, best_score)
      else alias_loop q_lower entry rest (best_match, best_score))"

text \<open>
  The keyword match of one entry. The two word sets are kept as lists; the size of the
  intersection counts the distinct words of the entry that the question has, the size of
  the union the distinct words of both.
  \<^verbatim>\<open>
  entry_words = set(entry["question"].lower().split())
  q_words = set(q_lower.split())
  overlap = len(entry_words & q_words)
  if overlap >= 3:
      score = overlap / max(len(entry_words | q_words), 1)
      if score > best_score:
          best_match = entry
          best_score = score * 0.8
  \<close>
\<close>

definition fuzzy_step ::
  "string \<Rightarrow> qa_entry \<Rightarrow> qa_entry option \<times> rat \<Rightarrow> qa_entry option \<times> rat"
where
  "fuzzy_step q_lower entry best =
     (let entry_words = split (lower (question entry));
          q_words = split q_lower;
          overlap = length (filter (\<lambda>w. w \<in> set q_words) (remdups entry_words))
      in
      if overlap \<ge> 3
      then
        let score = rat_of_nat overlap /
                    rat_of_nat (max (length (remdups (entry_words @ q_words))) 1) in
        if score > snd best then (Some entry, score * (8 / 10)) else best
      else best)"

text \<open>The loop over the entries; an exact match ends it (\<^verbatim>\<open>break\<close>).\<close>

fun score_entries ::
  "string \<Rightarrow> qa_entry list \<Rightarrow> qa_entry option \<times> rat \<Rightarrow> qa_entry option \<times> rat"
where
  "score_entries q_lower [] best = best"
| "score_entries q_lower (entry # rest) best =
     (if q_lower = lower (question entry) then (Some entry, 1)
      else score_entries q_lower rest
             (fuzzy_step q_lower entry
                (alias_loop q_lower entry (or_default (aliases entry) []) best)))"

text \<open>
  \<^verbatim>\<open>get_answer(question_text, job_context=None)\<close>. The context \<open>None\<close> is a missing
  or empty \<^verbatim>\<open>job_context\<close>, the result \<open>None\<close> is Python's \<^verbatim>\<open>None\<close>. An entry is a
  dictionary with keys, so \<^verbatim>\<open>best_match\<close> is true whenever it is set.
  \<^verbatim>\<open>
  if best_match and best_score >= 0.3:
      answer = best_match["answer"]
      if job_context:
          answer = self._fill_template(answer, job_context)
      return {"answer": answer, "confidence": best_score,
              "field_type": best_match.get("field_type", "text"),
              "category": best_match.get("category", ""),
              "source_question": best_match["question"]}
  return None
  \<close>
\<close>

definition get_answer :: "qa_entry list \<Rightarrow> string \<Rightarrow> job_context option \<Rightarrow> qa_result option" where
  "get_answer entries question_text context =
     (case score_entries (normalize_question question_text) entries (None, 0) of
        (None, best_score) \<Rightarrow> None
      | (Some best_match, best_score) \<Rightarrow>
          if best_score \<ge> 3 / 10
          then Some
            \<lparr>res_answer = (case context of
                             None \<Rightarrow> answer best_match
                           | Some c \<Rightarrow> fill_template (answer best_match) c),
             confidence = best_score,
             res_field_type = or_default (field_type best_match) ''text'',
             res_category = or_default (category best_match) '''',
             source_question = question best_match\<rparr>
          else None)"

subsection \<open>Job dictionaries\<close>

text \<open>
  A job is the dictionary form of a \<^verbatim>\<open>RawJob\<close> (\<^verbatim>\<open>to_dict()\<close>), with the keys that
  deduplication and scoring add. A key holds a value of the type \<^verbatim>\<open>RawJob\<close> declares
  for it, or is missing (\<open>None\<close>). The field \<open>id_key\<close> is the key \<^verbatim>\<open>"id"\<close>.
\<close>

record job =
  title :: "string option"
  company :: "string option"
  location :: "string option"
  url :: "string option"
  board_source :: "string option"
  description :: "string option"
  salary_range :: "string option"
  posted_date :: "string option"
  easy_apply :: "bool option"
  ats_platform :: "string option"
  job_type :: "string option"
  raw_id :: "string option"
  id_key :: "string option"
  sources :: "string list option"
  all_urls :: "string list option"
  easy_apply_url :: "string option"
  match :: "int option"
  apply_type :: "string option"

text \<open>The truth value of \<^verbatim>\<open>job.get(key)\<close> for a string and for a boolean key.\<close>

definition has_text :: "string option \<Rightarrow> bool" where
  "has_text v = (case v of None \<Rightarrow> False | Some s \<Rightarrow> s \<noteq> [])"

definition is_true :: "bool option \<Rightarrow> bool" where
  "is_true v = (case v of None \<Rightarrow> False | Some b \<Rightarrow> b)"

text \<open>The empty dictionary.\<close>

definition empty_job :: job where
  "empty_job =
     \<lparr>title = None, company = None, location = None, url = None, board_source = None,
      description = None, salary_range = None, posted_date = None, easy_apply = None,
      ats_platform = None, job_type = None, raw_id = None, id_key = None, sources = None,
      all_urls = None, easy_apply_url = None, match = None, apply_type = None\<rparr>"

subsection \<open>material\_manager.py\<close>








subsection \<open>apply\_engine.py\<close>

text \<open>An entry of \<^verbatim>\<open>action_log\<close>.\<close>

record log_entry =
  log_time :: string
  log_action_name :: string
  log_details :: string

text \<open>
  The dataclass \<^verbatim>\<open>ApplicationRecord\<close>; each field \<^verbatim>\<open>f\<close> is \<open>app_f\<close> here.
\<close>

record ApplicationRecord =
  app_id :: string
  app_job_id :: string
  app_job_title :: string
  app_company :: string
  app_url :: string
  app_score :: int
  app_apply_type :: string
  app_ats_type :: string
  app_easy_apply :: bool
  app_status :: string
  app_materials_ready :: bool
  app_fields_filled :: "string list"
  app_fields_skipped :: "string list"
  app_errors :: "string list"
  app_screenshot_path :: string
  app_submitted_at :: string
  app_created_at :: string
  app_action_log :: "log_entry list"
  app_resume_variant_id :: string
  app_cover_letter_variant_id :: string
  app_material_pairing_id :: string
  app_outcome :: string
  app_outcome_recorded_at :: string

text \<open>\<^verbatim>\<open>log_action(action, details)\<close> at the time \<open>now\<close> (an ISO timestamp).\<close>

definition log_action :: "string \<Rightarrow> string \<Rightarrow> string \<Rightarrow> ApplicationRecord \<Rightarrow> ApplicationRecord" where
  "log_action now action details app =
     app\<lparr>app_action_log := app_action_log app @
           [\<lparr>log_time = now, log_action_name = action, log_details = details\<rparr>]\<rparr>"

text \<open>
  The queue object: the list in memory, and the contents written to
  \<^verbatim>\<open>application_queue.json\<close> by each \<^verbatim>\<open>save()\<close>, oldest first.
\<close>

record application_queue =
  queue :: "ApplicationRecord list"
  file_writes :: "ApplicationRecord list list"

definition save :: "application_queue \<Rightarrow> application_queue" where
  "save q = q\<lparr>file_writes := file_writes q @ [queue q]\<rparr>"

text \<open>Decimal digits of an integer, as \<^verbatim>\<open>str(n)\<close> and an f-string print it.\<close>

fun str_nat :: "nat \<Rightarrow> string" where
  "str_nat n =
     (if n < 10 then [''0123456789'' ! n]
      else str_nat (n div 10) @ [''0123456789'' ! (n mod 10)])"

definition str_int :: "int \<Rightarrow> string" where
  "str_int i = (if i < 0 then ''-'' @ str_nat (nat (- i)) else str_nat (nat i))"

text \<open>\<^verbatim>\<open>job.get("raw_id") or job.get("id", "")\<close>.\<close>

definition job_key :: "job \<Rightarrow> string" where
  "job_key j = (if has_text (raw_id j) then the (raw_id j) else or_default (id_key j) '''')"

text \<open>
  The record that \<^verbatim>\<open>add_jobs\<close> makes for a job, the \<open>added\<close>-th of the call. The
  clock gives \<^verbatim>\<open>datetime.now()\<close> in the two formats used: \<open>stamp\<close> is
  \<^verbatim>\<open>strftime('%Y%m%d%H%M%S')\<close> and \<open>now_iso\<close> is \<^verbatim>\<open>isoformat()\<close>.
\<close>

definition new_record :: "string \<Rightarrow> string \<Rightarrow> nat \<Rightarrow> job \<Rightarrow> ApplicationRecord" where
  "new_record stamp now_iso added j =
     (let record =
        \<lparr>app_id = ''app_'' @ stamp @ ''_'' @ str_nat added,
         app_job_id = job_key j,
         app_job_title = or_default (title j) '''',
         app_company = or_default (company j) '''',
         app_url = or_default (url j) '''',
         app_score = or_default (match j) 0,
         app_apply_type = or_default (apply_type j) ''quick-apply'',
         app_ats_type = or_default (ats_platform j) '''',
         app_easy_apply = or_default (easy_apply j) False,
         app_status = ''queued'',
         app_materials_ready = False,
         app_fields_filled = [],
         app_fields_skipped = [],
         app_errors = [],
         app_screenshot_path = '''',
         app_submitted_at = '''',
         app_created_at = now_iso,
         app_action_log = [],
         app_resume_variant_id = '''',
         app_cover_letter_variant_id = '''',
         app_material_pairing_id = '''',
         app_outcome = '''',
         app_outcome_recorded_at = ''''\<rparr>
      in log_action now_iso ''queued''
           (''Score: '' @ str_int (app_score record) @ '', Type: '' @ app_apply_type record)
           record)"

text \<open>
  The loop of \<^verbatim>\<open>add_jobs\<close>, with its variables \<^verbatim>\<open>existing_ids\<close>, \<^verbatim>\<open>added\<close> and
  \<^verbatim>\<open>self.queue\<close>:
  \<^verbatim>\<open>
  for job in jobs:
      job_id = job.get("raw_id") or job.get("id", "")
      if job_id in existing_ids:
          continue
      if job.get("apply_type") == "skip":
          continue
      record = ApplicationRecord(...)
      record.log_action("queued", ...)
      self.queue.append(record)
      existing_ids.add(job_id)
      added += 1
  \<close>
\<close>

fun add_loop ::
  "string \<Rightarrow> string \<Rightarrow> job list \<Rightarrow> string set \<Rightarrow> nat \<Rightarrow> ApplicationRecord list \<Rightarrow>
   nat \<times> ApplicationRecord list"
where
  "add_loop stamp now_iso [] existing_ids added q = (added, q)"
| "add_loop stamp now_iso (j # jobs) existing_ids added q =
     (if job_key j \<in> existing_ids then add_loop stamp now_iso jobs existing_ids added q
      else if apply_type j = Some ''skip'' then add_loop stamp now_iso jobs existing_ids added q
      else add_loop stamp now_iso jobs (insert (job_key j) existing_ids) (added + 1)
             (q @ [new_record stamp now_iso added j]))"

text \<open>\<^verbatim>\<open>add_jobs(jobs)\<close> returns \<^verbatim>\<open>added\<close>; the queue is saved in every case.\<close>

definition add_jobs ::
  "application_queue \<Rightarrow> string \<Rightarrow> string \<Rightarrow> job list \<Rightarrow> nat \<times> application_queue"
where
  "add_jobs s stamp now_iso jobs =
     (let (added, q) = add_loop stamp now_iso jobs (app_job_id ` set (queue s)) 0 (queue s)
      in (added, save (s\<lparr>queue := q\<rparr>)))"

text \<open>
  A keyword argument of \<^verbatim>\<open>update_status\<close>: a value for one of the attributes, or a
  name that \<^verbatim>\<open>hasattr\<close> does not find, which is skipped.
\<close>

datatype kwarg =
    Kw_id string | Kw_job_id string | Kw_job_title string | Kw_company string
  | Kw_url string | Kw_score int | Kw_apply_type string | Kw_ats_type string
  | Kw_easy_apply bool | Kw_status string | Kw_materials_ready bool
  | Kw_fields_filled "string list" | Kw_fields_skipped "string list"
  | Kw_errors "string list" | Kw_screenshot_path string | Kw_submitted_at string
  | Kw_created_at string | Kw_action_log "log_entry list"
  | Kw_resume_variant_id string | Kw_cover_letter_variant_id string
  | Kw_material_pairing_id string | Kw_outcome string | Kw_outcome_recorded_at string
  | Kw_no_attribute string

fun set_attr :: "ApplicationRecord \<Rightarrow> kwarg \<Rightarrow> ApplicationRecord" where
  "set_attr app (Kw_id v) = app\<lparr>app_id := v\<rparr>"
| "set_attr app (Kw_job_id v) = app\<lparr>app_job_id := v\<rparr>"
| "set_attr app (Kw_job_title v) = app\<lparr>app_job_title := v\<rparr>"
| "set_attr app (Kw_company v) = app\<lparr>app_company := v\<rparr>"
| "set_attr app (Kw_url v) = app\<lparr>app_url := v\<rparr>"
| "set_attr app (Kw_score v) = app\<lparr>app_score := v\<rparr>"
| "set_attr app (Kw_apply_type v) = app\<lparr>app_apply_type := v\<rparr>"
| "set_attr app (Kw_ats_type v) = app\<lparr>app_ats_type := v\<rparr>"
| "set_attr app (Kw_easy_apply v) = app\<lparr>app_easy_apply := v\<rparr>"
| "set_attr app (Kw_status v) = app\<lparr>app_status := v\<rparr>"
| "set_attr app (Kw_materials_ready v) = app\<lparr>app_materials_ready := v\<rparr>"
| "set_attr app (Kw_fields_filled v) = app\<lparr>app_fields_filled := v\<rparr>"
| "set_attr app (Kw_fields_skipped v) = app\<lparr>app_fields_skipped := v\<rparr>"
| "set_attr app (Kw_errors v) = app\<lparr>app_errors := v\<rparr>"
| "set_attr app (Kw_screenshot_path v) = app\<lparr>app_screenshot_path := v\<rparr>"
| "set_attr app (Kw_submitted_at v) = app\<lparr>app_submitted_at := v\<rparr>"
| "set_attr app (Kw_created_at v) = app\<lparr>app_created_at := v\<rparr>"
| "set_attr app (Kw_action_log v) = app\<lparr>app_action_log := v\<rparr>"
| "set_attr app (Kw_resume_variant_id v) = app\<lparr>app_resume_variant_id := v\<rparr>"
| "set_attr app (Kw_cover_letter_variant_id v) = app\<lparr>app_cover_letter_variant_id := v\<rparr>"
| "set_attr app (Kw_material_pairing_id v) = app\<lparr>app_material_pairing_id := v\<rparr>"
| "set_attr app (Kw_outcome v) = app\<lparr>app_outcome := v\<rparr>"
| "set_attr app (Kw_outcome_recorded_at v) = app\<lparr>app_outcome_recorded_at := v\<rparr>"
| "set_attr app (Kw_no_attribute name) = app"

text \<open>
  What \<^verbatim>\<open>update_status\<close> does to the record it finds; \<open>kwargs_str\<close> is
  \<^verbatim>\<open>str(kwargs)\<close>.
  \<^verbatim>\<open>
  app.status = status
  app.log_action(f"status_change:{status}", str(kwargs))
  for k, v in kwargs.items():
      if hasattr(app, k):
          setattr(app, k, v)
  \<close>
\<close>

definition change_status ::
  "string \<Rightarrow> string \<Rightarrow> kwarg list \<Rightarrow> string \<Rightarrow> ApplicationRecord \<Rightarrow> ApplicationRecord"
where
  "change_status now status kwargs kwargs_str app =
     foldl set_attr
       (log_action now (''status_change:'' @ status) kwargs_str (app\<lparr>app_status := status\<rparr>))
       kwargs"

text \<open>
  The loop of \<^verbatim>\<open>update_status\<close> over the queue: the first record with the id is
  changed; \<open>None\<close> when the loop ends without finding one.
\<close>

fun update_first ::
  "(ApplicationRecord \<Rightarrow> ApplicationRecord) \<Rightarrow> string \<Rightarrow> ApplicationRecord list \<Rightarrow>
   ApplicationRecord list option"
where
  "update_first f ident [] = None"
| "update_first f ident (app # rest) =
     (if app_id app = ident then Some (f app # rest)
      else map_option ((#) app) (update_first f ident rest))"

definition update_status ::
  "application_queue \<Rightarrow> string \<Rightarrow> string \<Rightarrow> string \<Rightarrow> kwarg list \<Rightarrow> string \<Rightarrow>
   bool \<times> application_queue"
where
  "update_status s now ident status kwargs kwargs_str =
     (case update_first (change_status now status kwargs kwargs_str) ident (queue s) of
        None \<Rightarrow> (False, s)
      | Some q \<Rightarrow> (True, save (s\<lparr>queue := q\<rparr>)))"

subsection \<open>dedup\_engine.py\<close>

text \<open>
  What the module takes from Python's library, and the two normalizers that are built
  from regular expression substitutions: \<open>urlparse\<close> gives the \<^verbatim>\<open>netloc\<close> and the
  \<^verbatim>\<open>path\<close> of \<^verbatim>\<open>urllib.parse.urlparse(url)\<close>, and \<open>ratio s1 s2\<close> is
  \<^verbatim>\<open>SequenceMatcher(None, s1, s2).ratio()\<close>. They are arguments of the model.
\<close>

record text_functions =
  urlparse :: "string \<Rightarrow> string \<times> string"
  normalize_title :: "string \<Rightarrow> string"
  normalize_company :: "string \<Rightarrow> string"
  ratio :: "string \<Rightarrow> string \<Rightarrow> rat"

text \<open>
  \<^verbatim>\<open>
  def normalize_url(url):
      if not url:
          return ""
      parsed = urlparse(url)
      path = parsed.path.rstrip('/')
      clean = f"{parsed.netloc}{path}".lower()
      clean = re.sub(r'^www\.', '', clean)
      return clean
  \<close>
\<close>

definition normalize_url :: "text_functions \<Rightarrow> string \<Rightarrow> string" where
  "normalize_url tf u =
     (if u = [] then ''''
      else
        let (netloc, path) = urlparse tf u;
            clean = lower (netloc @ rstrip_where (\<lambda>c. c = CHR ''/'') path)
        in if prefix ''www.'' clean then drop 4 clean else clean)"

definition fuzzy_match :: "text_functions \<Rightarrow> string \<Rightarrow> string \<Rightarrow> rat \<Rightarrow> bool" where
  "fuzzy_match tf s1 s2 threshold =
     (if s1 = [] \<or> s2 = [] then False else ratio tf s1 s2 \<ge> threshold)"

text \<open>
  \<^verbatim>\<open>richness_score\<close>: the description gives a hundredth of a point per character, up
  to 5000 characters; a salary range 20, a posted date 10, easy apply 15, and an ATS
  platform, a job type and a URL 5 each.
\<close>

definition richness_score :: "job \<Rightarrow> rat" where
  "richness_score j =
     (if has_text (description j)
      then rat_of_nat (min (length (the (description j))) 5000) / 100 else 0)
     + (if has_text (salary_range j) then 20 else 0)
     + (if has_text (posted_date j) then 10 else 0)
     + (if is_true (easy_apply j) then 15 else 0)
     + (if has_text (ats_platform j) then 5 else 0)
     + (if has_text (job_type j) then 5 else 0)
     + (if has_text (url j) then 5 else 0)"

text \<open>\<^verbatim>\<open>job.get("board_source", "unknown")\<close>.\<close>

definition board_of :: "job \<Rightarrow> string" where
  "board_of j = or_default (board_source j) ''unknown''"

text \<open>
  One round of the backfill loop of \<^verbatim>\<open>_merge_group\<close>: \<open>best\<close> takes from \<open>j\<close>
  what it lacks.
\<close>

definition backfill :: "job \<Rightarrow> job \<Rightarrow> job" where
  "backfill best j =
     (let b1 = (if \<not> has_text (description best) \<and> has_text (description j)
                then best\<lparr>description := description j\<rparr> else best);
          b2 = (if \<not> has_text (salary_range b1) \<and> has_text (salary_range j)
                then b1\<lparr>salary_range := salary_range j\<rparr> else b1);
          b3 = (if \<not> has_text (posted_date b2) \<and> has_text (posted_date j)
                then b2\<lparr>posted_date := posted_date j\<rparr> else b2);
          b4 = (if \<not> has_text (ats_platform b3) \<and> has_text (ats_platform j)
                then b3\<lparr>ats_platform := ats_platform j\<rparr> else b3);
          b5 = (if \<not> has_text (job_type b4) \<and> has_text (job_type j)
                then b4\<lparr>job_type := job_type j\<rparr> else b4)
      in if is_true (easy_apply j)
         then (if has_text (url j)
               then b5\<lparr>easy_apply := Some True, easy_apply_url := url j\<rparr>
               else b5\<lparr>easy_apply := Some True\<rparr>)
         else b5)"

text \<open>
  \<^verbatim>\<open>_merge_group(group)\<close>. The sort is Python's stable sort with \<^verbatim>\<open>reverse=True\<close>:
  by falling richness, members of equal richness in their order in the group. The lists
  built from a \<^verbatim>\<open>set\<close> hold each value once; Python leaves their order open, here it
  is the order of first occurrence. An empty group raises IndexError (\<open>None\<close>).
  \<^verbatim>\<open>
  if len(group) == 1:
      job = group[0]
      job["sources"] = [job.get("board_source", "unknown")]
      return job
  group.sort(key=lambda j: richness_score(j), reverse=True)
  best = {**group[0]}
  sources = list(set(j.get("board_source", "unknown") for j in group))
  best["sources"] = sources
  for job in group[1:]:
      ...
  best["all_urls"] = list(set(j.get("url", "") for j in group if j.get("url")))
  return best
  \<close>
\<close>

definition merge_group :: "job list \<Rightarrow> job option" where
  "merge_group grp =
     (case grp of
        [] \<Rightarrow> None
      | [j] \<Rightarrow> Some (j\<lparr>sources := Some [board_of j]\<rparr>)
      | _ \<Rightarrow>
          let sorted_group = sort_key (\<lambda>j. - richness_score j) grp;
              best = (hd sorted_group)\<lparr>sources := Some (remdups (map board_of sorted_group))\<rparr>;
              best = foldl backfill best (tl sorted_group)
          in Some (best\<lparr>all_urls :=
                      Some (remdups (map (\<lambda>j. or_default (url j) '''')
                                      (filter (\<lambda>j. has_text (url j)) sorted_group)))\<rparr>))"

text \<open>
  Phase 1 of \<^verbatim>\<open>deduplicate\<close>: \<^verbatim>\<open>url_groups\<close> is a dictionary of lists in the order
  in which its keys were first stored; \<^verbatim>\<open>no_url\<close> takes the jobs without a URL.
\<close>

fun group_append :: "string \<Rightarrow> job \<Rightarrow> (string \<times> job list) list \<Rightarrow> (string \<times> job list) list" where
  "group_append k j [] = [(k, [j])]"
| "group_append k j ((k', js) # rest) =
     (if k' = k then (k', js @ [j]) # rest else (k', js) # group_append k j rest)"

fun group_by_url ::
  "text_functions \<Rightarrow> job list \<Rightarrow> (string \<times> job list) list \<times> job list \<Rightarrow>
   (string \<times> job list) list \<times> job list"
where
  "group_by_url tf [] acc = acc"
| "group_by_url tf (j # jobs) (url_groups, no_url) =
     (let norm_url = normalize_url tf (or_default (url j) '''') in
      if norm_url \<noteq> []
      then group_by_url tf jobs (group_append norm_url j url_groups, no_url)
      else group_by_url tf jobs (url_groups, no_url @ [j]))"

record dedup_stats =
  total_input :: int
  duplicates_found :: int
  unique_output :: int
  cross_board_merges :: int

record dedup_engine =
  title_threshold :: rat
  company_threshold :: rat
  stats :: dedup_stats

text \<open>\<^verbatim>\<open>DeduplicationEngine(title_threshold=0.85, company_threshold=0.80)\<close>.\<close>

definition DeduplicationEngine_init :: "rat \<Rightarrow> rat \<Rightarrow> dedup_engine" where
  "DeduplicationEngine_init tt ct =
     \<lparr>title_threshold = tt, company_threshold = ct,
      stats = \<lparr>total_input = 0, duplicates_found = 0, unique_output = 0,
               cross_board_merges = 0\<rparr>\<rparr>"

text \<open>
  Phase 2, the inner loop for the candidate \<open>job_a\<close> at index \<open>i\<close>: the state is the
  cluster, the set \<^verbatim>\<open>used\<close> and the counter \<^verbatim>\<open>cross_board_merges\<close>.
  \<^verbatim>\<open>
  for j, job_b in enumerate(all_candidates):
      if j in used or j <= i:
          continue
      ...
      title_match = fuzzy_match(norm_title_a, norm_title_b, self.title_threshold)
      company_match = fuzzy_match(norm_company_a, norm_company_b, self.company_threshold)
      if title_match and company_match:
          cluster.append(job_b)
          used.add(j)
          if job_a.get("board_source") != job_b.get("board_source"):
              self.stats["cross_board_merges"] += 1
  \<close>
\<close>

fun cluster_loop ::
  "text_functions \<Rightarrow> dedup_engine \<Rightarrow> job list \<Rightarrow> nat \<Rightarrow> job \<Rightarrow> nat list \<Rightarrow>
   job list \<times> nat set \<times> int \<Rightarrow> job list \<times> nat set \<times> int"
where
  "cluster_loop tf eng cands i job_a [] st = st"
| "cluster_loop tf eng cands i job_a (j # js) (cluster, used, cross) =
     (if j \<in> used \<or> j \<le> i then cluster_loop tf eng cands i job_a js (cluster, used, cross)
      else
        let job_b = cands ! j;
            title_match =
              fuzzy_match tf (normalize_title tf (or_default (title job_a) ''''))
                (normalize_title tf (or_default (title job_b) '''')) (title_threshold eng);
            company_match =
              fuzzy_match tf (normalize_company tf (or_default (company job_a) ''''))
                (normalize_company tf (or_default (company job_b) '''')) (company_threshold eng)
        in
        if title_match \<and> company_match
        then cluster_loop tf eng cands i job_a js
               (cluster @ [job_b], insert j used,
                if board_source job_a \<noteq> board_source job_b then cross + 1 else cross)
        else cluster_loop tf eng cands i job_a js (cluster, used, cross))"

text \<open>
  The outer loop: the state is \<^verbatim>\<open>used\<close>, \<^verbatim>\<open>clusters\<close> and the counter.
  \<^verbatim>\<open>
  for i, job_a in enumerate(all_candidates):
      if i in used:
          continue
      cluster = [job_a]
      used.add(i)
      ...
      clusters.append(cluster)
  \<close>
\<close>

fun clusters_loop ::
  "text_functions \<Rightarrow> dedup_engine \<Rightarrow> job list \<Rightarrow> nat list \<Rightarrow>
   nat set \<times> job list list \<times> int \<Rightarrow> job list list \<times> int"
where
  "clusters_loop tf eng cands [] (used, clusters, cross) = (clusters, cross)"
| "clusters_loop tf eng cands (i # is) (used, clusters, cross) =
     (if i \<in> used then clusters_loop tf eng cands is (used, clusters, cross)
      else
        let (cluster, used', cross') =
              cluster_loop tf eng cands i (cands ! i) [0..<length cands]
                ([cands ! i], insert i used, cross)
        in clusters_loop tf eng cands is (used', clusters @ [cluster], cross'))"

text \<open>
  The last loop: a cluster of one job is kept, with its \<^verbatim>\<open>sources\<close> set to its own
  board; a larger one is merged.
  \<^verbatim>\<open>
  for cluster in clusters:
      if len(cluster) == 1:
          job = cluster[0]
          job["sources"] = [job.get("board_source", "unknown")]
          result.append(job)
      else:
          merged_job = self._merge_group(cluster)
          result.append(merged_job)
          self.stats["duplicates_found"] += len(cluster) - 1
  \<close>
\<close>

fun merge_clusters :: "job list list \<Rightarrow> job list \<times> int \<Rightarrow> (job list \<times> int) option" where
  "merge_clusters [] acc = Some acc"
| "merge_clusters (cluster # rest) (result, dups) =
     (case cluster of
        [j] \<Rightarrow> merge_clusters rest (result @ [j\<lparr>sources := Some [board_of j]\<rparr>], dups)
      | _ \<Rightarrow>
          (case merge_group cluster of
             None \<Rightarrow> None
           | Some merged_job \<Rightarrow>
               merge_clusters rest (result @ [merged_job], dups + int (length cluster) - 1)))"

text \<open>
  \<^verbatim>\<open>deduplicate(jobs)\<close> returns the result list; the second component is the engine
  with its statistics updated. \<open>None\<close> stands for an exception. The code also
  changes dictionaries of the input list in place; the model gives the returned list.
  \<^verbatim>\<open>
  self.stats["total_input"] = len(jobs)
  if not jobs:
      return []
  ...
  merged = []
  for url, group in url_groups.items():
      merged.append(self._merge_group(group))
  all_candidates = merged + no_url
  ...
  self.stats["unique_output"] = len(result)
  return result
  \<close>
\<close>

definition deduplicate ::
  "text_functions \<Rightarrow> dedup_engine \<Rightarrow> job list \<Rightarrow> (job list \<times> dedup_engine) option"
where
  "deduplicate tf eng jobs =
     (let st0 = (stats eng)\<lparr>total_input := int (length jobs)\<rparr> in
      if jobs = [] then Some ([], eng\<lparr>stats := st0\<rparr>)
      else
        let (url_groups, no_url) = group_by_url tf jobs ([], []) in
        case those (map (\<lambda>(u, grp). merge_group grp) url_groups) of
          None \<Rightarrow> None
        | Some merged \<Rightarrow>
            let all_candidates = merged @ no_url;
                (clusters, cross) =
                  clusters_loop tf eng all_candidates [0..<length all_candidates]
                    ({}, [], cross_board_merges st0)
            in
            case merge_clusters clusters ([], duplicates_found st0) of
              None \<Rightarrow> None
            | Some (result, dups) \<Rightarrow>
                Some (result,
                      eng\<lparr>stats := st0\<lparr>cross_board_merges := cross, duplicates_found := dups,
                                        unique_output := int (length result)\<rparr>\<rparr>))"

subsection \<open>scoring\_engine.py\<close>

text \<open>
  The tables of the module. A Python dictionary is listed in the order of its source
  text, which is the order in which the code walks through it.
\<close>

record keyword_table =
  high_value :: "(string \<times> int) list"
  medium_value :: "(string \<times> int) list"
  low_value :: "(string \<times> int) list"

definition RESUME_KEYWORDS :: keyword_table where
  "RESUME_KEYWORDS =
   \<lparr>high_value =
     [(''product manager'', 4), (''product management'', 4), (''AI'', 3),
      (''machine learning'', 3), (''biotechnology'', 3), (''biotech'', 3), (''pharma'', 3),
      (''bioinformatics'', 3), (''data governance'', 3), (''analytics'', 2), (''SaaS'', 3),
      (''agile'', 2), (''scrum'', 2), (''cross functional'', 2), (''roadmap'', 2),
      (''stakeholder'', 2), (''strategy'', 2), (''LLM'', 3), (''generative AI'', 3),
      (''python'', 2), (''AWS'', 2), (''program manager'', 3), (''product strategy'', 3),
      (''user research'', 2), (''product owner'', 3)],
    medium_value =
     [(''MBA'', 2), (''digital'', 1), (''platform'', 2), (''quality control'', 2),
      (''QC'', 1), (''lab'', 1), (''regulatory'', 2), (''compliance'', 2),
      (''clinical'', 2), (''R&D'', 2), (''research'', 1), (''innovation'', 1),
      (''startup'', 2), (''defense'', 2), (''aerospace'', 2), (''government'', 1),
      (''project manager'', 2), (''adjunct'', 2), (''professor'', 2), (''instructor'', 2),
      (''teaching'', 1)],
    low_value =
     [(''leadership'', 1), (''communication'', 1), (''presentation'', 1), (''excel'', 1),
      (''sql'', 1), (''tableau'', 1), (''visualization'', 1), (''reporting'', 1),
      (''analysis'', 1), (''team'', 1), (''collaboration'', 1), (''documentation'', 1),
      (''budget'', 1), (''jira'', 1), (''confluence'', 1)]\<rparr>"

definition SENIORITY_BOOSTS :: "(string \<times> int) list" where
  "SENIORITY_BOOSTS =
     [(''senior'', 8), (''sr'', 8), (''lead'', 10), (''principal'', 6), (''head of'', 5),
      (''director'', 3), (''vp'', - 5), (''chief'', - 10), (''junior'', - 10),
      (''jr'', - 10), (''entry'', - 15), (''intern'', - 20), (''associate'', - 5)]"

text \<open>A tier is the list of its names and its boost.\<close>

definition COMPANY_TIERS :: "(string \<times> string list \<times> int) list" where
  "COMPANY_TIERS =
     [(''tier1'',
        ([''amgen'', ''google'', ''apple'', ''microsoft'', ''meta'', ''amazon'',
           ''nvidia'', ''genentech'', ''gilead'', ''abbvie'', ''regeneron'',
           ''illumina'', ''thermo fisher'', ''boeing'', ''lockheed martin'',
           ''raytheon'', ''northrop grumman'', ''spacex''],
         10)),
      (''tier2'',
        ([''snap'', ''salesforce'', ''adobe'', ''netflix'', ''uber'', ''airbnb'',
           ''stripe'', ''moderna'', ''biogen'', ''vertex'', ''exact sciences'',
           ''10x genomics'', ''general atomics'', ''l3harris'',
           ''bae systems'', ''aerojet''],
         7)),
      (''tier3'',
        ([''startup'', ''series a'', ''series b'', ''seed stage'', ''ycombinator''],
         5))]"

definition PREFERRED_LOCATIONS :: "(string \<times> int) list" where
  "PREFERRED_LOCATIONS =
     [(''remote'', 12), (''work from home'', 12), (''hybrid'', 8)]"

text \<open>
  The engine after \<^verbatim>\<open>__init__\<close>: its four tables, the adaptive weights read from
  \<^verbatim>\<open>scoring_weights.json\<close> (the dictionaries \<^verbatim>\<open>title_boosts\<close> and
  \<^verbatim>\<open>company_boosts\<close>, empty when the key is missing), the strategy, and the
  \<^verbatim>\<open>companyName\<close> of each entry of \<^verbatim>\<open>config.get_watchlist()\<close>, which is \<open>None\<close>
  when the engine has no configuration manager.
\<close>

record scoring_engine =
  keyword_weights :: keyword_table
  seniority_boosts :: "(string \<times> int) list"
  company_tiers :: "(string \<times> string list \<times> int) list"
  preferred_locations :: "(string \<times> int) list"
  title_boosts :: "(string \<times> int) list"
  company_boosts :: "(string \<times> int) list"
  strategy :: string
  watchlist :: "string list option"

text \<open>
  \<^verbatim>\<open>ScoringEngine()\<close> without a configuration manager, given the adaptive weights on
  disk.
\<close>

definition ScoringEngine_init :: "(string \<times> int) list \<Rightarrow> (string \<times> int) list \<Rightarrow> scoring_engine" where
  "ScoringEngine_init tb cb =
     \<lparr>keyword_weights = RESUME_KEYWORDS, seniority_boosts = SENIORITY_BOOSTS,
      company_tiers = COMPANY_TIERS, preferred_locations = PREFERRED_LOCATIONS,
      title_boosts = tb, company_boosts = cb, strategy = ''balanced'', watchlist = None\<rparr>"

text \<open>\<^verbatim>\<open>int(x)\<close> of a number: towards zero.\<close>

definition py_int :: "rat \<Rightarrow> int" where
  "py_int x = (if 0 \<le> x then \<lfloor>x\<rfloor> else \<lceil>x\<rceil>)"

text \<open>
  One of the three loops of \<^verbatim>\<open>_score_keywords\<close>: it adds to \<^verbatim>\<open>score\<close> the weights
  of the keywords found in the text, and to \<^verbatim>\<open>max_possible\<close> every weight.
\<close>

fun keyword_loop :: "string \<Rightarrow> (string \<times> int) list \<Rightarrow> int \<times> int \<Rightarrow> int \<times> int" where
  "keyword_loop text [] acc = acc"
| "keyword_loop text ((keyword, weight) # rest) (score, max_possible) =
     keyword_loop text rest
       (if occurs_in (lower keyword) text then score + weight else score, max_possible + weight)"

definition score_keywords :: "scoring_engine \<Rightarrow> job \<Rightarrow> int" where
  "score_keywords e j =
     (let text = lower (or_default (title j) '''' @ '' '' @ or_default (description j) '''');
          (score, max_possible) =
             keyword_loop text (low_value (keyword_weights e))
               (keyword_loop text (medium_value (keyword_weights e))
                  (keyword_loop text (high_value (keyword_weights e)) (0, 0)))
      in if max_possible = 0 then 0
         else min 30 (py_int (of_int score / of_int max_possible * 30)))"

definition target_roles :: "(string \<times> int) list" where
  "target_roles =
     [(''product manager'', 20), (''program manager'', 15), (''product owner'', 14),
      (''ai product'', 18), (''ml product'', 18), (''data product'', 16),
      (''technical product'', 16), (''product strategy'', 15),
      (''adjunct'', 12), (''professor'', 12), (''instructor'', 12),
      (''project manager'', 10), (''data governance'', 14),
      (''quality control'', 10), (''quality assurance'', 8)]"

text \<open>
  \<^verbatim>\<open>
  for role, points in ...:
      if role in text:
          score = max(score, points)
  \<close>
  is the loop of \<^verbatim>\<open>_score_title\<close> and of \<^verbatim>\<open>_score_location\<close>.
\<close>

fun best_points :: "string \<Rightarrow> (string \<times> int) list \<Rightarrow> int \<Rightarrow> int" where
  "best_points text [] score = score"
| "best_points text ((role, points) # rest) score =
     best_points text rest (if occurs_in role text then max score points else score)"

definition score_title :: "job \<Rightarrow> int" where
  "score_title j = min 20 (best_points (lower (or_default (title j) '''')) target_roles 0)"

text \<open>The loop of \<^verbatim>\<open>_score_seniority\<close> stops at the first level found.\<close>

fun first_boost :: "string \<Rightarrow> (string \<times> int) list \<Rightarrow> int \<Rightarrow> int" where
  "first_boost text [] score = score"
| "first_boost text ((level, boost) # rest) score =
     (if occurs_in level text then score + boost else first_boost text rest score)"

definition score_seniority :: "scoring_engine \<Rightarrow> job \<Rightarrow> int" where
  "score_seniority e j =
     max 0 (min 15 (first_boost (lower (or_default (title j) '''')) (seniority_boosts e) 8))"

definition score_location :: "scoring_engine \<Rightarrow> job \<Rightarrow> int" where
  "score_location e j =
     min 15 (best_points (lower (or_default (location j) '''')) (preferred_locations e) 0)"

text \<open>
  \<^verbatim>\<open>_score_company\<close> returns at the first name of the first tier found in
  \<^verbatim>\<open>f"{company} {description}"\<close>, and 3 when there is none.
\<close>

fun first_tier :: "string \<Rightarrow> (string \<times> string list \<times> int) list \<Rightarrow> int" where
  "first_tier text [] = 3"
| "first_tier text ((tier_name, names, boost) # rest) =
     (if \<exists>name \<in> set names. occurs_in name text then min 10 boost
      else first_tier text rest)"

definition score_company :: "scoring_engine \<Rightarrow> job \<Rightarrow> int" where
  "score_company e j =
     first_tier (lower (or_default (company j) '''') @ '' '' @
                 lower (or_default (description j) '''')) (company_tiers e)"

text \<open>
  \<^verbatim>\<open>_score_freshness\<close>. The clock argument \<open>days_old\<close> gives
  \<^verbatim>\<open>(datetime.now() - datetime.strptime(s, "%Y-%m-%d")).days\<close> for the string
  \<^verbatim>\<open>posted[:10]\<close>, and \<open>None\<close> when \<^verbatim>\<open>strptime\<close> raises ValueError.
\<close>

definition score_freshness :: "(string \<Rightarrow> int option) \<Rightarrow> job \<Rightarrow> int" where
  "score_freshness days_old j =
     (let posted = or_default (posted_date j) '''' in
      if posted = [] then 5
      else case days_old (take 10 posted) of
             None \<Rightarrow> 5
           | Some d \<Rightarrow>
               if d \<le> 1 then 10
               else if d \<le> 3 then 8
               else if d \<le> 7 then 6
               else if d \<le> 14 then 4
               else 2)"

text \<open>
  \<^verbatim>\<open>
  bonuses = 0
  if job.get("easy_apply"):
      bonuses += 3
  if job.get("salary_range"):
      bonuses += 2
  if self.config:
      watchlist = self.config.get_watchlist()
      company_lower = (job.get("company") or "").lower()
      if any(w.get("companyName", "").lower() == company_lower for w in watchlist):
          bonuses += 5
  breakdown["bonuses"] = min(bonuses, 10)
  \<close>
\<close>

definition score_bonuses :: "scoring_engine \<Rightarrow> job \<Rightarrow> int" where
  "score_bonuses e j =
     (let b1 = (if is_true (easy_apply j) then 3 else 0);
          b2 = (if has_text (salary_range j) then b1 + 2 else b1);
          b3 = (case watchlist e of
                  None \<Rightarrow> b2
                | Some ws \<Rightarrow>
                    if \<exists>w \<in> set ws. lower w = lower (or_default (company j) '''')
                    then b2 + 5 else b2)
      in min b3 10)"

text \<open>The two loops of \<^verbatim>\<open>_apply_adaptive\<close> add the boost of every pattern found.\<close>

fun boost_sum :: "string \<Rightarrow> (string \<times> int) list \<Rightarrow> int \<Rightarrow> int" where
  "boost_sum text [] adjustment = adjustment"
| "boost_sum text ((pattern, boost) # rest) adjustment =
     boost_sum text rest (if occurs_in (lower pattern) text then adjustment + boost else adjustment)"

definition apply_adaptive :: "scoring_engine \<Rightarrow> job \<Rightarrow> int" where
  "apply_adaptive e j =
     max (- 10) (min 10
       (boost_sum (lower (or_default (company j) '''')) (company_boosts e)
          (boost_sum (lower (or_default (title j) '''')) (title_boosts e) 0)))"

definition meets_threshold_of :: "scoring_engine \<Rightarrow> int \<Rightarrow> bool" where
  "meets_threshold_of e score =
     (score \<ge> or_default
        (map_of [(''wide-net'', 50), (''balanced'', 60), (''targeted'', 85)] (strategy e)) 60)"

definition get_apply_type :: "scoring_engine \<Rightarrow> int \<Rightarrow> string" where
  "get_apply_type e score =
     (if strategy e = ''targeted''
      then (if score \<ge> 85 then ''full-prep'' else if score \<ge> 50 then ''quick-apply'' else ''skip'')
      else if strategy e = ''wide-net''
      then (if score \<ge> 80 then ''full-prep'' else if score \<ge> 50 then ''quick-apply'' else ''skip'')
      else (if score \<ge> 80 then ''full-prep'' else if score \<ge> 60 then ''quick-apply'' else ''skip''))"

record breakdown =
  bd_keywords :: int
  bd_title :: int
  bd_seniority :: int
  bd_location :: int
  bd_company :: int
  bd_freshness :: int
  bd_bonuses :: int
  bd_adaptive :: int

record score_result =
  total_score :: int
  score_breakdown :: breakdown
  result_strategy :: string
  meets_threshold :: bool
  result_apply_type :: string

text \<open>
  \<^verbatim>\<open>score(job)\<close>, with the clock of \<^verbatim>\<open>_score_freshness\<close>. The parts are integers, so
  \<^verbatim>\<open>int(raw_total)\<close> is \<^verbatim>\<open>raw_total\<close>.
  \<^verbatim>\<open>
  raw_total = sum(breakdown.values())
  total = max(0, min(100, int(raw_total)))
  \<close>
\<close>

definition score :: "scoring_engine \<Rightarrow> (string \<Rightarrow> int option) \<Rightarrow> job \<Rightarrow> score_result" where
  "score e days_old j =
     (let bd = \<lparr>bd_keywords = score_keywords e j,
                bd_title = score_title j,
                bd_seniority = score_seniority e j,
                bd_location = score_location e j,
                bd_company = score_company e j,
                bd_freshness = score_freshness days_old j,
                bd_bonuses = score_bonuses e j,
                bd_adaptive = apply_adaptive e j\<rparr>;
          raw_total = bd_keywords bd + bd_title bd + bd_seniority bd + bd_location bd
                      + bd_company bd + bd_freshness bd + bd_bonuses bd + bd_adaptive bd;
          total = max 0 (min 100 raw_total)
      in \<lparr>total_score = total, score_breakdown = bd, result_strategy = strategy e,
           meets_threshold = meets_threshold_of e total,
           result_apply_type = get_apply_type e total\<rparr>)"

subsection \<open>Notions used in the proofs\<close>

text \<open>
  The sum of the weights of the keywords of a table that occur in a text: what a keyword
  loop adds to the score.
\<close>

definition found_weight :: "string \<Rightarrow> (string \<times> int) list \<Rightarrow> int" where
  "found_weight text tbl =
     sum_list (map (\<lambda>(k, w). if occurs_in (lower k) text then w else 0) tbl)"

text \<open>A keyword table without negative weights.\<close>

definition nonneg_weights :: "keyword_table \<Rightarrow> bool" where
  "nonneg_weights kt \<longleftrightarrow>
     (\<forall>(k, w) \<in> set (high_value kt). 0 \<le> w) \<and>
     (\<forall>(k, w) \<in> set (medium_value kt). 0 \<le> w) \<and>
     (\<forall>(k, w) \<in> set (low_value kt). 0 \<le> w)"

section \<open>Properties\<close>

subsection \<open>scheduler.py: the apply step and dry runs\<close>

lemma run_once_apply_due:
  "run_once_apply sched ck = Some c \<Longrightarrow> should_run sched ck ''apply''"
  by (simp add: run_once_apply_def split: if_splits)

text \<open>
  With the mode written out as \<^verbatim>\<open>"semi-auto"\<close> the call is a dry run, and in general
  the flag is set exactly when the key is present with that value.
\<close>

lemma run_once_apply_dry_run_iff:
  "run_once_apply sched ck = Some c \<Longrightarrow>
   dry_run c \<longleftrightarrow> map_of (get_task sched ''apply'') ''mode'' = Some (JStr ''semi-auto'')"
  by (auto simp: run_once_apply_def dict_get_def Let_def split: if_splits option.splits)

lemma run_once_apply_mode_default:
  "run_once_apply sched ck = Some c \<Longrightarrow> map_of (get_task sched ''apply'') ''mode'' = None \<Longrightarrow>
   engine_mode c = JStr ''semi-auto'' \<and> \<not> dry_run c"
  by (auto simp: run_once_apply_def dict_get_def dict_get_default_def Let_def split: if_splits)

text \<open>
  Claim C1 says that a due apply task in semi-auto mode calls \<^verbatim>\<open>process_queue\<close> with
  \<^verbatim>\<open>dry_run\<close> on, also when the schedule has no \<^verbatim>\<open>mode\<close> key and the mode
  defaults to semi-auto. The code at such a schedule: an enabled apply task without a
  \<^verbatim>\<open>mode\<close> key, due on a Monday at 09:00. The engine's mode is set to the default
  \<^verbatim>\<open>"semi-auto"\<close>, and \<^verbatim>\<open>process_queue\<close> is called with \<^verbatim>\<open>dry_run=False\<close>.
\<close>

theorem run_once_apply_mode_absent:
  "run_once_apply
     [(''apply'', [(''enabled'', JBool True), (''times'', JList [JStr ''09:00'']),
                   (''max_per_run'', JInt 10)])]
     \<lparr>current_day = ''mon'', in_window = (\<lambda>t. t = JStr ''09:00''),
        ran_recently = (\<lambda>task_name t. False)\<rparr>
   = Some \<lparr>engine_mode = JStr ''semi-auto'', limit = JInt 10, dry_run = False\<rparr>"
  by (simp add: run_once_apply_def should_run_def get_task_def dict_get_def
      dict_get_default_def weekdays_def)

subsection \<open>qa\_bank.py: exact matches\<close>

text \<open>
  An exact match is found when the normalized incoming text equals the stored question
  in lower case, and then the confidence is 1.
\<close>

lemma score_entries_exact:
  "e \<in> set entries \<Longrightarrow> q = lower (question e) \<Longrightarrow>
   \<exists>m. score_entries q entries best = (Some m, 1) \<and> lower (question m) = q"
proof (induction entries arbitrary: best)
  case Nil
  then show ?case by simp
next
  case (Cons x xs)
  show ?case
  proof (cases "q = lower (question x)")
    case True
    then show ?thesis by simp
  next
    case False
    with Cons.prems have "e \<in> set xs" by auto
    from Cons.IH [OF this Cons.prems(2)] False show ?thesis by simp
  qed
qed

lemma get_answer_exact:
  assumes "e \<in> set entries" and "normalize_question question_text = lower (question e)"
  shows "\<exists>r. get_answer entries question_text context = Some r \<and> confidence r = 1 \<and>
             lower (source_question r) = normalize_question question_text"
proof -
  obtain m where m: "score_entries (normalize_question question_text) entries (None, 0) = (Some m, 1)"
      "lower (question m) = normalize_question question_text"
    using score_entries_exact [OF assms(1) assms(2)] by blast
  show ?thesis by (simp add: get_answer_def m)
qed

text \<open>
  Claim C2 says that an incoming text that is the stored question after normalization is
  answered with confidence 1.0, and names the stored question
  \<^verbatim>\<open>"Why do you want to work here?"\<close> with the incoming text
  \<^verbatim>\<open>"why do you want to work here"\<close>. The code at that input: only the incoming text
  loses its trailing question mark, the stored question is only put in lower case, the
  two differ, and the entry is found by the keyword match, 6 shared words of 8, with
  confidence \<open>6/8 \<times> 0.8 = 0.6\<close>. The stored question itself, typed as stored, gets the
  same 0.6.
\<close>

theorem get_answer_stored_question_mark:
  "get_answer
     [\<lparr>question = ''Why do you want to work here?'', answer = ''I admire the mission.'',
       aliases = None, field_type = None, category = None\<rparr>]
     ''why do you want to work here'' None
   = Some \<lparr>res_answer = ''I admire the mission.'', confidence = 3 / 5,
            res_field_type = ''text'', res_category = '''',
            source_question = ''Why do you want to work here?''\<rparr> \<and>
   get_answer
     [\<lparr>question = ''Why do you want to work here?'', answer = ''I admire the mission.'',
       aliases = None, field_type = None, category = None\<rparr>]
     ''Why do you want to work here?'' None
   = Some \<lparr>res_answer = ''I admire the mission.'', confidence = 3 / 5,
            res_field_type = ''text'', res_category = '''',
            source_question = ''Why do you want to work here?''\<rparr>"
  by (simp add: get_answer_def normalize_question_def strip_def rstrip_where_def lower_def
      lower_char_def is_space_def fuzzy_step_def split_def or_default_def)

subsection \<open>security.py: masking a credential\<close>

text \<open>
  Claim C3, as the code has it. \<^verbatim>\<open>mask_credential(value, visible_chars)\<close> returns
  \<^verbatim>\<open>"[EMPTY]"\<close> for the empty string; for a non-empty value and a positive
  \<open>visible_chars\<close> it returns \<^verbatim>\<open>"***"\<close> exactly when the value has at most
  \<open>visible_chars\<close> characters (a value of exactly that length is masked whole), and a
  strictly longer value gives its first \<open>visible_chars\<close> characters followed by
  \<^verbatim>\<open>"***"\<close>.
\<close>

theorem mask_credential_cases:
  "mask_credential [] n = ''[EMPTY]'' \<and>
   (val \<noteq> [] \<and> 0 < n \<longrightarrow> (mask_credential val n = ''***'' \<longleftrightarrow> int (length val) \<le> n)) \<and>
   (val \<noteq> [] \<and> 0 < n \<and> n < int (length val) \<longrightarrow>
      mask_credential val n = take (nat n) val @ ''***'')"
  by (auto simp: mask_credential_def slice_to_def)

theorem mask_credential_cases_witness:
  "''my_secret_password'' \<noteq> [] \<and> (0::int) < 4 \<and> 4 < int (length ''my_secret_password'') \<and>
   mask_credential ''my_secret_password'' 4 = ''my_s***'' \<and>
   int (length ''abcd'') \<le> 4 \<and> mask_credential ''abcd'' 4 = ''***''"
  using mask_credential_cases [of 4 "''my_secret_password''"] mask_credential_cases [of 4 "''abcd''"]
  by simp

text \<open>
  The claim as first stated puts the boundary one character lower: a value of exactly
  \<open>visible_chars\<close> characters would be shown in full before the stars. The code masks
  it.
\<close>

theorem mask_credential_counterexample:
  "''abcd'' \<noteq> [] \<and> \<not> int (length ''abcd'') < 4 \<and>
   mask_credential ''abcd'' 4 = ''***'' \<and>
   mask_credential ''abcd'' 4 \<noteq> take 4 ''abcd'' @ ''***''"
  by (simp add: mask_credential_def)

subsection \<open>scoring\_engine.py: the range of the total and the senior remote job\<close>

lemma occurs_in_append: "occurs_in p t \<Longrightarrow> occurs_in p (s @ t)"
  by (induction s) auto

lemma lower_append: "lower (s @ t) = lower s @ lower t"
  by (simp add: lower_def)

lemma keyword_loop_eq:
  "keyword_loop text tbl (s, m) = (s + found_weight text tbl, m + sum_list (map snd tbl))"
  by (induction tbl arbitrary: s m) (auto simp: found_weight_def)

lemma found_weight_nonneg:
  "\<forall>(k, w) \<in> set tbl. 0 \<le> w \<Longrightarrow> 0 \<le> found_weight text tbl"
  by (induction tbl) (auto simp: found_weight_def)

lemma found_weight_mono:
  "\<forall>(k, w) \<in> set tbl. 0 \<le> w \<Longrightarrow> found_weight text tbl \<le> found_weight (s @ text) tbl"
  by (induction tbl) (auto simp: found_weight_def occurs_in_append)

lemma found_weight_le:
  "\<forall>(k, w) \<in> set tbl. 0 \<le> w \<Longrightarrow> (0::int) \<le> sum_list (map snd tbl)"
  by (induction tbl) auto

lemma py_int_mono: "0 \<le> x \<Longrightarrow> x \<le> y \<Longrightarrow> py_int x \<le> py_int y"
  by (simp add: py_int_def floor_mono)

lemma py_int_nonneg: "0 \<le> x \<Longrightarrow> 0 \<le> py_int x"
  by (simp add: py_int_def)

lemma score_keywords_eq:
  "score_keywords e j =
     (let text = lower (or_default (title j) '''' @ '' '' @ or_default (description j) '''');
          sc = found_weight text (high_value (keyword_weights e))
               + found_weight text (medium_value (keyword_weights e))
               + found_weight text (low_value (keyword_weights e));
          mx = sum_list (map snd (high_value (keyword_weights e)))
               + sum_list (map snd (medium_value (keyword_weights e)))
               + sum_list (map snd (low_value (keyword_weights e)))
      in if mx = 0 then 0 else min 30 (py_int (of_int sc / of_int mx * 30)))"
  by (simp add: score_keywords_def keyword_loop_eq Let_def)

lemma score_keywords_le: "score_keywords e j \<le> 30"
  by (simp add: score_keywords_eq Let_def)

lemma score_keywords_mono:
  assumes nn: "nonneg_weights (keyword_weights e)"
    and ta: "lower (or_default (title a) '''') = s @ lower (or_default (title b) '''')"
    and d: "description a = description b"
  shows "0 \<le> score_keywords e b \<and> score_keywords e b \<le> score_keywords e a"
proof -
  let ?tb = "lower (or_default (title b) '''' @ '' '' @ or_default (description b) '''')"
  let ?ta = "lower (or_default (title a) '''' @ '' '' @ or_default (description a) '''')"
  let ?h = "high_value (keyword_weights e)"
  let ?m = "medium_value (keyword_weights e)"
  let ?l = "low_value (keyword_weights e)"
  let ?mx = "sum_list (map snd ?h) + sum_list (map snd ?m) + sum_list (map snd ?l)"
  let ?sb = "found_weight ?tb ?h + found_weight ?tb ?m + found_weight ?tb ?l"
  let ?sa = "found_weight ?ta ?h + found_weight ?ta ?m + found_weight ?ta ?l"
  have t: "?ta = s @ ?tb"
    using ta d by (simp add: lower_append)
  have nh: "\<forall>(k, w) \<in> set ?h. 0 \<le> w" and nm: "\<forall>(k, w) \<in> set ?m. 0 \<le> w"
    and nl: "\<forall>(k, w) \<in> set ?l. 0 \<le> w"
    using nn by (simp_all add: nonneg_weights_def)
  have mx: "0 \<le> ?mx"
    using found_weight_le [OF nh] found_weight_le [OF nm] found_weight_le [OF nl] by linarith
  have sb: "0 \<le> ?sb"
    using found_weight_nonneg [OF nh, of ?tb] found_weight_nonneg [OF nm, of ?tb]
      found_weight_nonneg [OF nl, of ?tb] by linarith
  have sab: "?sb \<le> ?sa"
    unfolding t
    using found_weight_mono [OF nh, of ?tb s] found_weight_mono [OF nm, of ?tb s]
      found_weight_mono [OF nl, of ?tb s] by linarith
  show ?thesis
  proof (cases "?mx = 0")
    case True
    then show ?thesis by (simp add: score_keywords_eq Let_def)
  next
    case False
    with mx have pos: "0 < ?mx" by linarith
    have x0: "(0::rat) \<le> of_int ?sb / of_int ?mx * 30"
      using sb pos by simp
    have xle: "(of_int ?sb :: rat) / of_int ?mx * 30 \<le> of_int ?sa / of_int ?mx * 30"
      using sab pos by (simp add: divide_right_mono)
    have kb: "score_keywords e b = min 30 (py_int (of_int ?sb / of_int ?mx * 30))"
      using False by (simp add: score_keywords_eq Let_def)
    have ka: "score_keywords e a = min 30 (py_int (of_int ?sa / of_int ?mx * 30))"
      using False by (simp add: score_keywords_eq Let_def)
    show ?thesis
      unfolding ka kb
      using py_int_mono [OF x0 xle] py_int_nonneg [OF x0] by simp
  qed
qed

lemma nonneg_RESUME_KEYWORDS: "nonneg_weights RESUME_KEYWORDS"
  by (simp add: nonneg_weights_def RESUME_KEYWORDS_def)

lemma first_tier_le: "first_tier text tiers \<le> 10"
  by (induction tiers) auto

lemma first_tier_ge:
  "\<forall>(n, ns, b) \<in> set tiers. 3 \<le> b \<Longrightarrow> 3 \<le> first_tier text tiers"
  by (induction tiers) auto

lemma score_company_bounds:
  "company_tiers e = COMPANY_TIERS \<Longrightarrow> 3 \<le> score_company e j \<and> score_company e j \<le> 10"
  using first_tier_ge [of COMPANY_TIERS] first_tier_le [of _ COMPANY_TIERS]
  by (simp add: score_company_def COMPANY_TIERS_def)

lemma score_freshness_bounds: "2 \<le> score_freshness days_old j \<and> score_freshness days_old j \<le> 10"
  by (simp add: score_freshness_def Let_def split: option.splits)

lemma apply_adaptive_bounds: "- 10 \<le> apply_adaptive e j \<and> apply_adaptive e j \<le> 10"
  by (simp add: apply_adaptive_def)

lemma score_title_le: "score_title j \<le> 20"
  by (simp add: score_title_def)

lemma score_total_range:
  "0 \<le> total_score (score e days_old j) \<and> total_score (score e days_old j) \<le> 100"
  by (simp add: score_def Let_def)

lemma lower_senior_pm:
  "lower ''Senior Product Manager'' = ''senior product manager''"
  "lower ''Product Manager'' = ''product manager''"
  "lower ''Remote'' = ''remote''"
  "lower ''Chicago, IL'' = ''chicago, il''"
  by (simp_all add: lower_def lower_char_def)

lemma score_title_pm:
  "title j = Some ''Senior Product Manager'' \<or> title j = Some ''Product Manager'' \<Longrightarrow>
   score_title j = 20"
  by (erule disjE) (simp_all add: score_title_def or_default_def lower_senior_pm target_roles_def)

lemma score_seniority_senior:
  "seniority_boosts e = SENIORITY_BOOSTS \<Longrightarrow> title j = Some ''Senior Product Manager'' \<Longrightarrow>
   score_seniority e j = 15"
  by (simp add: score_seniority_def or_default_def lower_senior_pm SENIORITY_BOOSTS_def)

lemma score_seniority_plain:
  "seniority_boosts e = SENIORITY_BOOSTS \<Longrightarrow> title j = Some ''Product Manager'' \<Longrightarrow>
   score_seniority e j = 8"
  by (simp add: score_seniority_def or_default_def lower_senior_pm SENIORITY_BOOSTS_def)

lemma score_location_remote:
  "preferred_locations e = PREFERRED_LOCATIONS \<Longrightarrow> location j = Some ''Remote'' \<Longrightarrow>
   score_location e j = 12"
  by (simp add: score_location_def or_default_def lower_senior_pm PREFERRED_LOCATIONS_def)

lemma score_location_chicago:
  "preferred_locations e = PREFERRED_LOCATIONS \<Longrightarrow> location j = Some ''Chicago, IL'' \<Longrightarrow>
   score_location e j = 0"
  by (simp add: score_location_def or_default_def lower_senior_pm PREFERRED_LOCATIONS_def)

lemma score_bonuses_both:
  "is_true (easy_apply a) \<Longrightarrow> has_text (salary_range a) \<Longrightarrow>
   \<not> is_true (easy_apply b) \<Longrightarrow> \<not> has_text (salary_range b) \<Longrightarrow> company a = company b \<Longrightarrow>
   score_bonuses e a = score_bonuses e b + 5 \<and> 0 \<le> score_bonuses e b \<and> score_bonuses e b \<le> 5"
  by (simp add: score_bonuses_def Let_def split: option.splits)

text \<open>
  Claim C4. The total of \<^verbatim>\<open>score(job)\<close> is an integer from 0 to 100, for every engine,
  clock and job. With the tables of the module (any adaptive weights, strategy, watchlist
  and clock), a job titled \<^verbatim>\<open>"Senior Product Manager"\<close> in \<^verbatim>\<open>"Remote"\<close> with
  \<^verbatim>\<open>easy_apply\<close> true and a non-empty \<^verbatim>\<open>salary_range\<close> scores strictly higher than
  the job that differs from it only in having the title \<^verbatim>\<open>"Product Manager"\<close>, the
  location \<^verbatim>\<open>"Chicago, IL"\<close>, no \<^verbatim>\<open>easy_apply\<close> and no \<^verbatim>\<open>salary_range\<close>: seniority
  gives 15 against 8, location 12 against 0, the bonuses 5 more, the keywords no less,
  the adaptive adjustment at most 20 less, and the second job's sum stays below 100.
\<close>

theorem score_range_and_senior_remote:
  "0 \<le> total_score (score e days_old j) \<and> total_score (score e days_old j) \<le> 100 \<and>
   (keyword_weights e = RESUME_KEYWORDS \<and> seniority_boosts e = SENIORITY_BOOSTS \<and>
    company_tiers e = COMPANY_TIERS \<and> preferred_locations e = PREFERRED_LOCATIONS \<and>
    title b = Some ''Product Manager'' \<and> location b = Some ''Chicago, IL'' \<and>
    \<not> is_true (easy_apply b) \<and> \<not> has_text (salary_range b) \<and> salary \<noteq> [] \<and>
    a = b\<lparr>title := Some ''Senior Product Manager'', location := Some ''Remote'',
           easy_apply := Some True, salary_range := Some salary\<rparr>
    \<longrightarrow> total_score (score e days_old b) < total_score (score e days_old a))"
proof (intro conjI impI)
  show "0 \<le> total_score (score e days_old j)" "total_score (score e days_old j) \<le> 100"
    using score_total_range [of e days_old j] by simp_all
next
  assume h: "keyword_weights e = RESUME_KEYWORDS \<and> seniority_boosts e = SENIORITY_BOOSTS \<and>
    company_tiers e = COMPANY_TIERS \<and> preferred_locations e = PREFERRED_LOCATIONS \<and>
    title b = Some ''Product Manager'' \<and> location b = Some ''Chicago, IL'' \<and>
    \<not> is_true (easy_apply b) \<and> \<not> has_text (salary_range b) \<and> salary \<noteq> [] \<and>
    a = b\<lparr>title := Some ''Senior Product Manager'', location := Some ''Remote'',
           easy_apply := Some True, salary_range := Some salary\<rparr>"
  then have a: "a = b\<lparr>title := Some ''Senior Product Manager'', location := Some ''Remote'',
           easy_apply := Some True, salary_range := Some salary\<rparr>" by simp
  have ta: "title a = Some ''Senior Product Manager''" and la: "location a = Some ''Remote''"
    and ea: "is_true (easy_apply a)" and sa: "has_text (salary_range a)"
    and ca: "company a = company b" and da: "description a = description b"
    and pa: "posted_date a = posted_date b"
    using h by (simp_all add: a is_true_def has_text_def)
  have tb: "title b = Some ''Product Manager''" and lb: "location b = Some ''Chicago, IL''"
    and eb: "\<not> is_true (easy_apply b)" and sb: "\<not> has_text (salary_range b)"
    using h by simp_all
  have kw: "0 \<le> score_keywords e b \<and> score_keywords e b \<le> score_keywords e a"
  proof (rule score_keywords_mono [where s = "''senior ''"])
    show "nonneg_weights (keyword_weights e)"
      using h nonneg_RESUME_KEYWORDS by simp
    show "lower (or_default (title a) '''') = ''senior '' @ lower (or_default (title b) '''')"
      by (simp add: ta tb or_default_def lower_senior_pm)
    show "description a = description b" by (rule da)
  qed
  have kwa: "score_keywords e a \<le> 30" by (rule score_keywords_le)
  have tta: "score_title a = 20" using ta by (simp add: score_title_pm)
  have ttb: "score_title b = 20" using tb by (simp add: score_title_pm)
  have sna: "score_seniority e a = 15" using h ta by (simp add: score_seniority_senior)
  have snb: "score_seniority e b = 8" using h tb by (simp add: score_seniority_plain)
  have loa: "score_location e a = 12" using h la by (simp add: score_location_remote)
  have lob: "score_location e b = 0" using h lb by (simp add: score_location_chicago)
  have co: "score_company e a = score_company e b"
    by (simp add: score_company_def ca da)
  have cob: "3 \<le> score_company e b \<and> score_company e b \<le> 10"
    using h by (simp add: score_company_bounds)
  have fr: "score_freshness days_old a = score_freshness days_old b"
    by (simp add: score_freshness_def pa)
  have frb: "2 \<le> score_freshness days_old b \<and> score_freshness days_old b \<le> 10"
    by (rule score_freshness_bounds)
  have bo: "score_bonuses e a = score_bonuses e b + 5 \<and> 0 \<le> score_bonuses e b \<and>
            score_bonuses e b \<le> 5"
    using ea sa eb sb ca by (rule score_bonuses_both)
  have ada: "- 10 \<le> apply_adaptive e a \<and> apply_adaptive e a \<le> 10"
    by (rule apply_adaptive_bounds)
  have adb: "- 10 \<le> apply_adaptive e b \<and> apply_adaptive e b \<le> 10"
    by (rule apply_adaptive_bounds)
  let ?ra = "score_keywords e a + score_title a + score_seniority e a + score_location e a
             + score_company e a + score_freshness days_old a + score_bonuses e a
             + apply_adaptive e a"
  let ?rb = "score_keywords e b + score_title b + score_seniority e b + score_location e b
             + score_company e b + score_freshness days_old b + score_bonuses e b
             + apply_adaptive e b"
  have totals: "total_score (score e days_old a) = max 0 (min 100 ?ra)"
       "total_score (score e days_old b) = max 0 (min 100 ?rb)"
    by (simp_all add: score_def Let_def)
  have "?rb < ?ra" "?rb < 100" "0 < ?ra"
    using kw kwa tta ttb sna snb loa lob co cob fr frb bo ada adb by linarith+
  then show "total_score (score e days_old b) < total_score (score e days_old a)"
    unfolding totals by linarith
qed

theorem score_range_and_senior_remote_witness:
  "keyword_weights (ScoringEngine_init [(''senior'', - 5)] []) = RESUME_KEYWORDS \<and>
   seniority_boosts (ScoringEngine_init [(''senior'', - 5)] []) = SENIORITY_BOOSTS \<and>
   company_tiers (ScoringEngine_init [(''senior'', - 5)] []) = COMPANY_TIERS \<and>
   preferred_locations (ScoringEngine_init [(''senior'', - 5)] []) = PREFERRED_LOCATIONS \<and>
   title (empty_job\<lparr>title := Some ''Product Manager'', location := Some ''Chicago, IL'',
                     company := Some ''Acme'', description := Some ''Own the roadmap.''\<rparr>)
     = Some ''Product Manager'' \<and>
   location (empty_job\<lparr>title := Some ''Product Manager'', location := Some ''Chicago, IL'',
                     company := Some ''Acme'', description := Some ''Own the roadmap.''\<rparr>)
     = Some ''Chicago, IL'' \<and>
   \<not> is_true (easy_apply (empty_job\<lparr>title := Some ''Product Manager'',
       location := Some ''Chicago, IL'', company := Some ''Acme'',
       description := Some ''Own the roadmap.''\<rparr>)) \<and>
   \<not> has_text (salary_range (empty_job\<lparr>title := Some ''Product Manager'',
       location := Some ''Chicago, IL'', company := Some ''Acme'',
       description := Some ''Own the roadmap.''\<rparr>)) \<and>
   ''$150k'' \<noteq> [] \<and>
   total_score (score (ScoringEngine_init [(''senior'', - 5)] []) (\<lambda>s. None)
      (empty_job\<lparr>title := Some ''Product Manager'', location := Some ''Chicago, IL'',
                 company := Some ''Acme'', description := Some ''Own the roadmap.''\<rparr>))
   < total_score (score (ScoringEngine_init [(''senior'', - 5)] []) (\<lambda>s. None)
      (empty_job\<lparr>title := Some ''Product Manager'', location := Some ''Chicago, IL'',
                 company := Some ''Acme'', description := Some ''Own the roadmap.'',
                 title := Some ''Senior Product Manager'', location := Some ''Remote'',
                 easy_apply := Some True, salary_range := Some ''$150k''\<rparr>))"
  using score_range_and_senior_remote
    [where e = "ScoringEngine_init [(''senior'', - 5)] []" and days_old = "\<lambda>s. None"
       and b = "empty_job\<lparr>title := Some ''Product Manager'', location := Some ''Chicago, IL'',
                 company := Some ''Acme'', description := Some ''Own the roadmap.''\<rparr>"
       and salary = "''$150k''"
       and a = "empty_job\<lparr>title := Some ''Product Manager'', location := Some ''Chicago, IL'',
                 company := Some ''Acme'', description := Some ''Own the roadmap.'',
                 title := Some ''Senior Product Manager'', location := Some ''Remote'',
                 easy_apply := Some True, salary_range := Some ''$150k''\<rparr>"]
  by (simp add: ScoringEngine_init_def empty_job_def is_true_def has_text_def)

subsection \<open>rate\_limiter.py: the daily cap\<close>

lemma get_rate_cong:
  "rates s' = rates s \<Longrightarrow> get_rate s' board = get_rate s board"
  by (simp add: get_rate_def split: option.splits)

lemma get_rate_reset [simp]: "get_rate (reset_daily_if_needed s d) b = get_rate s b"
  by (rule get_rate_cong) (simp add: reset_daily_if_needed_def)

lemma wait_allowed:
  "get_rate s board = Some r \<Longrightarrow> daily_date s = d \<Longrightarrow> daily_counts s board < daily_cap r \<Longrightarrow>
   wait s d t board =
     Some (True, s\<lparr>daily_counts := (daily_counts s)(board := daily_counts s board + 1),
                     last_request := (last_request s)(board := t)\<rparr>)"
  by (simp add: wait_def reset_daily_if_needed_def)

lemma wait_refused:
  "get_rate s board = Some r \<Longrightarrow> daily_date s = d \<Longrightarrow> daily_cap r \<le> daily_counts s board \<Longrightarrow>
   wait s d t board = Some (False, s)"
  by (simp add: wait_def reset_daily_if_needed_def)

text \<open>
  Claim C5. For a board whose rate has \<^verbatim>\<open>daily_cap = 3\<close> and that has made no
  request yet today, four \<^verbatim>\<open>wait\<close> calls on the same day \<open>d\<close> return true, true,
  true, false; after the third, \<^verbatim>\<open>can_request\<close> is false; on any other day \<open>d'\<close>,
  \<^verbatim>\<open>can_request\<close> is true again and the board's backoff level is back to 0.
\<close>

theorem wait_daily_cap:
  assumes r: "get_rate s board = Some r" and cap: "daily_cap r = 3"
    and fresh: "daily_counts s board = 0 \<or> daily_date s \<noteq> d"
    and later: "d' \<noteq> d"
  shows "\<exists>s1 s2 s3 s5.
           wait s d t1 board = Some (True, s1) \<and>
           wait s1 d t2 board = Some (True, s2) \<and>
           wait s2 d t3 board = Some (True, s3) \<and>
           can_request s3 d board = Some (False, s3) \<and>
           wait s3 d t4 board = Some (False, s3) \<and>
           can_request s3 d' board = Some (True, s5) \<and>
           backoff_level s5 board = 0"
proof -
  let ?s0 = "reset_daily_if_needed s d"
  have r0: "get_rate ?s0 board = Some r" using r by simp
  have d0: "daily_date ?s0 = d" by (simp add: reset_daily_if_needed_def)
  have c0: "daily_counts ?s0 board = 0"
    using fresh by (auto simp: reset_daily_if_needed_def)
  have w0: "wait s d t board = wait ?s0 d t board" for t
    by (simp add: wait_def reset_daily_if_needed_def Let_def)
  let ?s1 = "?s0\<lparr>daily_counts := (daily_counts ?s0)(board := daily_counts ?s0 board + 1),
                     last_request := (last_request ?s0)(board := t1)\<rparr>"
  let ?s2 = "?s1\<lparr>daily_counts := (daily_counts ?s1)(board := daily_counts ?s1 board + 1),
                     last_request := (last_request ?s1)(board := t2)\<rparr>"
  let ?s3 = "?s2\<lparr>daily_counts := (daily_counts ?s2)(board := daily_counts ?s2 board + 1),
                     last_request := (last_request ?s2)(board := t3)\<rparr>"
  have r1: "get_rate ?s1 board = Some r" using r0 get_rate_cong [of ?s1 ?s0 board] by simp
  have r2: "get_rate ?s2 board = Some r" using r0 get_rate_cong [of ?s2 ?s0 board] by simp
  have r3: "get_rate ?s3 board = Some r" using r0 get_rate_cong [of ?s3 ?s0 board] by simp
  have a1: "wait s d t1 board = Some (True, ?s1)"
    unfolding w0 using r0 d0 c0 cap by (intro wait_allowed) auto
  have a2: "wait ?s1 d t2 board = Some (True, ?s2)"
    using r1 d0 c0 cap by (intro wait_allowed) auto
  have a3: "wait ?s2 d t3 board = Some (True, ?s3)"
    using r2 d0 c0 cap by (intro wait_allowed) auto
  have a4: "wait ?s3 d t4 board = Some (False, ?s3)"
    using r3 d0 c0 cap by (intro wait_refused) auto
  have c3: "can_request ?s3 d board = Some (False, ?s3)"
    using r3 d0 c0 cap by (simp add: can_request_def reset_daily_if_needed_def)
  let ?s5 = "reset_daily_if_needed ?s3 d'"
  have c5: "can_request ?s3 d' board = Some (True, ?s5)"
    using r3 d0 later cap by (simp add: can_request_def Let_def) (simp add: reset_daily_if_needed_def)
  have b5: "backoff_level ?s5 board = 0"
    using d0 later by (simp add: reset_daily_if_needed_def)
  show ?thesis using a1 a2 a3 a4 c3 c5 b5 by blast
qed

theorem wait_daily_cap_witness:
  "get_rate (report_throttled (RateLimiter_init [(''testboard'', mk_rate 1 2 3 2)] 0) ''testboard'')
      ''testboard'' = Some (mk_rate 1 2 3 2) \<and>
   daily_cap (mk_rate 1 2 3 2) = 3 \<and>
   daily_counts (report_throttled (RateLimiter_init [(''testboard'', mk_rate 1 2 3 2)] 0) ''testboard'')
      ''testboard'' = 0 \<and>
   (1::nat) \<noteq> 0 \<and>
   (\<exists>s1 s2 s3 s5.
      wait (report_throttled (RateLimiter_init [(''testboard'', mk_rate 1 2 3 2)] 0) ''testboard'')
        0 10 ''testboard'' = Some (True, s1) \<and>
      wait s1 0 20 ''testboard'' = Some (True, s2) \<and>
      wait s2 0 30 ''testboard'' = Some (True, s3) \<and>
      can_request s3 0 ''testboard'' = Some (False, s3) \<and>
      wait s3 0 40 ''testboard'' = Some (False, s3) \<and>
      can_request s3 1 ''testboard'' = Some (True, s5) \<and>
      backoff_level s5 ''testboard'' = 0)"
proof -
  let ?s = "report_throttled (RateLimiter_init [(''testboard'', mk_rate 1 2 3 2)] 0) ''testboard''"
  have r: "get_rate ?s ''testboard'' = Some (mk_rate 1 2 3 2)"
    by (simp add: get_rate_def report_throttled_def RateLimiter_init_def DEFAULT_BOARD_RATES_def)
  have cap: "daily_cap (mk_rate 1 2 3 2) = 3"
    by (simp add: mk_rate_def)
  have c: "daily_counts ?s ''testboard'' = 0"
    by (simp add: report_throttled_def RateLimiter_init_def)
  have d: "(1::nat) \<noteq> 0" by simp
  show ?thesis
    using r cap c d wait_daily_cap [OF r cap disjI1 [OF c] d, of 10 20 30 40]
    by simp
qed

subsection \<open>rate\_limiter.py: the backoff level\<close>

lemma report_throttled_level:
  "backoff_level (report_throttled s b) c =
     (if c = b then min (backoff_level s b + 1) 5 else backoff_level s c)"
  by (simp add: report_throttled_def)

lemma report_success_level:
  "backoff_level (report_success s b) c =
     (if c = b \<and> 0 < backoff_level s b then backoff_level s b - 1 else backoff_level s c)"
  by (simp add: report_success_def)

lemma report_blocked_level:
  "backoff_level (report_blocked s b) c = (if c = b then 5 else backoff_level s c)"
  by (simp add: report_blocked_def)

lemma apply_report_bounds:
  "0 \<le> backoff_level s c \<and> backoff_level s c \<le> 5 \<Longrightarrow>
   0 \<le> backoff_level (apply_report s r) c \<and> backoff_level (apply_report s r) c \<le> 5"
  by (cases r) (auto simp: report_throttled_level report_success_level report_blocked_level)

lemma apply_reports_bounds:
  "0 \<le> backoff_level s c \<and> backoff_level s c \<le> 5 \<Longrightarrow>
   0 \<le> backoff_level (apply_reports s rs) c \<and> backoff_level (apply_reports s rs) c \<le> 5"
  unfolding apply_reports_def
proof (induction rs arbitrary: s)
  case Nil
  then show ?case by simp
next
  case (Cons r rs)
  have "0 \<le> backoff_level (apply_report s r) c \<and> backoff_level (apply_report s r) c \<le> 5"
    using Cons.prems by (rule apply_report_bounds)
  then show ?case using Cons.IH by simp
qed

lemma throttled_n:
  "0 \<le> backoff_level s b \<Longrightarrow> backoff_level s b \<le> 5 \<Longrightarrow>
   backoff_level (apply_reports s (replicate n (Throttled b))) b = min 5 (backoff_level s b + int n)"
  unfolding apply_reports_def
  by (induction n arbitrary: s) (auto simp: report_throttled_level)

lemma success_n:
  "0 \<le> backoff_level s b \<Longrightarrow> backoff_level s b \<le> 5 \<Longrightarrow>
   backoff_level (apply_reports s (replicate n (Success b))) b = max 0 (backoff_level s b - int n)"
  unfolding apply_reports_def
  by (induction n arbitrary: s) (auto simp: report_success_level)

text \<open>
  Claim C6. From a new limiter, every sequence of \<^verbatim>\<open>report_success\<close>,
  \<^verbatim>\<open>report_throttled\<close> and \<^verbatim>\<open>report_blocked\<close> calls, on any boards, leaves
  every board's backoff level in \<open>[0, 5]\<close>. From level 0, five
  \<^verbatim>\<open>report_throttled\<close> calls give level 5 and more of them leave it at 5; five
  \<^verbatim>\<open>report_success\<close> calls after that give level 0 and more of them leave it at 0;
  \<^verbatim>\<open>report_success\<close> never makes a non-negative level negative;
  \<^verbatim>\<open>report_blocked\<close> sets the level to 5.
\<close>

theorem backoff_level_range:
  "(0 \<le> backoff_level (apply_reports (RateLimiter_init custom_rates today) rs) board \<and>
    backoff_level (apply_reports (RateLimiter_init custom_rates today) rs) board \<le> 5) \<and>
   (backoff_level s board = 0 \<longrightarrow>
      backoff_level (apply_reports s (replicate 5 (Throttled board))) board = 5 \<and>
      backoff_level (apply_reports s (replicate (5 + k) (Throttled board))) board = 5 \<and>
      backoff_level (apply_reports s
         (replicate 5 (Throttled board) @ replicate 5 (Success board))) board = 0 \<and>
      backoff_level (apply_reports s
         (replicate 5 (Throttled board) @ replicate (5 + k) (Success board))) board = 0) \<and>
   (0 \<le> backoff_level s board \<longrightarrow> 0 \<le> backoff_level (report_success s board) board) \<and>
   backoff_level (report_blocked s board) board = 5"
proof -
  let ?i = "RateLimiter_init custom_rates today"
  have init: "0 \<le> backoff_level ?i board \<and> backoff_level ?i board \<le> 5"
    by (simp add: RateLimiter_init_def)
  have inv: "0 \<le> backoff_level (apply_reports ?i rs) board \<and>
             backoff_level (apply_reports ?i rs) board \<le> 5"
    using init by (rule apply_reports_bounds)
  have seq: "backoff_level (apply_reports s (replicate m (Throttled board) @ replicate n (Success board))) board
             = max 0 (min 5 (int m) - int n)" if z: "backoff_level s board = 0" for m n
  proof -
    let ?t = "apply_reports s (replicate m (Throttled board))"
    have t: "backoff_level ?t board = min 5 (int m)"
      using throttled_n [of s board m] z by simp
    have "apply_reports s (replicate m (Throttled board) @ replicate n (Success board))
          = apply_reports ?t (replicate n (Success board))"
      by (simp add: apply_reports_def)
    then show ?thesis using success_n [of ?t board n] t by simp
  qed
  have thr: "backoff_level (apply_reports s (replicate m (Throttled board))) board = min 5 (int m)"
    if z: "backoff_level s board = 0" for m
    using throttled_n [of s board m] z by simp
  show ?thesis
    using inv seq [of 5 5] seq [of 5 "5 + k"] thr [of 5] thr [of "5 + k"]
    by (simp add: report_success_level report_blocked_level)
qed

theorem backoff_level_range_witness:
  "backoff_level (RateLimiter_init [] 0) ''indeed'' = 0 \<and>
   backoff_level (apply_reports (RateLimiter_init [] 0) (replicate 5 (Throttled ''indeed''))) ''indeed'' = 5 \<and>
   backoff_level (apply_reports (RateLimiter_init [] 0)
      (replicate 5 (Throttled ''indeed'') @ replicate 5 (Success ''indeed''))) ''indeed'' = 0 \<and>
   0 \<le> backoff_level (report_success (RateLimiter_init [] 0) ''indeed'') ''indeed''"
proof -
  have z: "backoff_level (RateLimiter_init [] 0) ''indeed'' = 0"
    by (simp add: RateLimiter_init_def)
  show ?thesis
    using z backoff_level_range [of "[]" 0 "[]" "''indeed''" "RateLimiter_init [] 0" 0]
    by simp
qed

subsection \<open>dedup\_engine.py: two postings with one URL\<close>

lemma group_by_url_pair:
  assumes "normalize_url tf (or_default (url a) '''') = u"
    and "normalize_url tf (or_default (url b) '''') = u" and "u \<noteq> []"
  shows "group_by_url tf [a, b] ([], []) = ([(u, [a, b])], [])"
  using assms by simp

lemma sort_pair:
  "sort_key (\<lambda>j. - richness_score j) [a, b] =
     (if richness_score b \<le> richness_score a then [a, b] else [b, a])"
  by simp

lemma backfill_board [simp]: "board_source (backfill best j) = board_source best"
  by (simp add: backfill_def Let_def)

lemma backfill_description:
  "has_text (description (backfill best j)) \<longleftrightarrow> has_text (description best) \<or> has_text (description j)"
  by (simp add: backfill_def Let_def)

lemma backfill_salary_range:
  "has_text (salary_range (backfill best j)) \<longleftrightarrow>
     has_text (salary_range best) \<or> has_text (salary_range j)"
  by (simp add: backfill_def Let_def)

lemma merge_group_pair:
  "\<exists>m. merge_group [a, b] = Some m \<and>
       board_source m = board_source (if richness_score b \<le> richness_score a then a else b) \<and>
       (has_text (description m) \<longleftrightarrow> has_text (description a) \<or> has_text (description b)) \<and>
       (has_text (salary_range m) \<longleftrightarrow> has_text (salary_range a) \<or> has_text (salary_range b))"
  by (auto simp: merge_group_def sort_pair backfill_description backfill_salary_range)

lemma clusters_loop_single:
  "clusters_loop tf eng [m] [0..<length [m]] ({}, [], c) = ([[m]], c)"
  by (simp add: upt_rec)

lemma deduplicate_same_url_pair:
  assumes ua: "normalize_url tf (or_default (url a) []) = u"
    and ub: "normalize_url tf (or_default (url b) []) = u" and u: "u \<noteq> []"
    and m: "merge_group [a, b] = Some m"
  shows "map_option fst (deduplicate tf eng [a, b]) = Some [m\<lparr>sources := Some [board_of m]\<rparr>]"
proof -
  have g: "group_by_url tf [a, b] ([], []) = ([(u, [a, b])], [])"
    using ua ub u by (rule group_by_url_pair)
  have c: "clusters_loop tf eng [m] [0..<Suc 0] ({}, [], c) = ([[m]], c)" for c
    using clusters_loop_single [of tf eng m c] by simp
  show ?thesis
    by (simp add: deduplicate_def g m c Let_def del: group_by_url.simps)
qed

lemma richness_example:
  "richness_score (empty_job\<lparr>title := Some ''Product Manager'', company := Some ''Acme'',
       url := Some ''https://www.example.com/jobs/42/'', board_source := Some ''indeed'',
       description := Some ''Own the roadmap.''\<rparr>) = 129 / 25"
  "richness_score (empty_job\<lparr>title := Some ''Product Manager'', company := Some ''Acme'',
       url := Some ''https://www.example.com/jobs/42/'', board_source := Some ''linkedin'',
       salary_range := Some ''$120k''\<rparr>) = 25"
  by (simp_all add: richness_score_def empty_job_def has_text_def is_true_def)

text \<open>
  Claim C7 says that two postings with the same normalized URL, one with a description and
  the other with a salary range, are merged into one record with both fields filled and
  with both boards in \<^verbatim>\<open>sources\<close>. The code on every such pair from two different
  boards: the result is one record, its description and salary range are filled, and its
  \<^verbatim>\<open>sources\<close> holds one board only, that of the richer posting. The merge of the URL
  group collects both boards, but the merged record is then alone in its cluster, and
  the last loop sets the \<^verbatim>\<open>sources\<close> of a cluster of one to the record's own board.
\<close>

theorem deduplicate_url_merge_sources:
  assumes ua: "normalize_url tf (or_default (url a) []) = u"
    and ub: "normalize_url tf (or_default (url b) []) = u" and u: "u \<noteq> []"
    and fields: "has_text (description a) \<and> has_text (salary_range b) \<or>
                 has_text (salary_range a) \<and> has_text (description b)"
    and boards: "board_of a \<noteq> board_of b"
  shows "\<exists>m. map_option fst (deduplicate tf eng [a, b]) = Some [m] \<and>
             has_text (description m) \<and> has_text (salary_range m) \<and>
             sources m = Some [board_of (if richness_score b \<le> richness_score a then a else b)] \<and>
             \<not> (board_of a \<in> set (the (sources m)) \<and> board_of b \<in> set (the (sources m)))"
proof -
  obtain m where m: "merge_group [a, b] = Some m"
    and bm: "board_source m = board_source (if richness_score b \<le> richness_score a then a else b)"
    and dm: "has_text (description m) \<longleftrightarrow> has_text (description a) \<or> has_text (description b)"
    and sm: "has_text (salary_range m) \<longleftrightarrow> has_text (salary_range a) \<or> has_text (salary_range b)"
    using merge_group_pair [of a b] by blast
  let ?r = "m\<lparr>sources := Some [board_of m]\<rparr>"
  have res: "map_option fst (deduplicate tf eng [a, b]) = Some [?r]"
    using ua ub u m by (rule deduplicate_same_url_pair)
  have bo: "board_of m = board_of (if richness_score b \<le> richness_score a then a else b)"
    using bm by (simp add: board_of_def)
  have d: "has_text (description ?r)" using dm fields by auto
  have s: "has_text (salary_range ?r)" using sm fields by auto
  have src: "sources ?r = Some [board_of (if richness_score b \<le> richness_score a then a else b)]"
    using bo by simp
  have no: "\<not> (board_of a \<in> set (the (sources ?r)) \<and> board_of b \<in> set (the (sources ?r)))"
    using boards by auto
  show ?thesis
    using res d s src no by blast
qed

theorem deduplicate_url_merge_sources_witness:
  "normalize_url
     \<lparr>urlparse = (\<lambda>u. (''www.example.com'', ''/jobs/42/'')), normalize_title = lower,
      normalize_company = lower, ratio = (\<lambda>s1 s2. if s1 = s2 then 1 else 0)\<rparr>
     ''https://www.example.com/jobs/42/'' = ''example.com/jobs/42'' \<and>
   map_option fst (deduplicate
     \<lparr>urlparse = (\<lambda>u. (''www.example.com'', ''/jobs/42/'')), normalize_title = lower,
      normalize_company = lower, ratio = (\<lambda>s1 s2. if s1 = s2 then 1 else 0)\<rparr>
     (DeduplicationEngine_init (85 / 100) (80 / 100))
     [empty_job\<lparr>title := Some ''Product Manager'', company := Some ''Acme'',
        url := Some ''https://www.example.com/jobs/42/'', board_source := Some ''indeed'',
        description := Some ''Own the roadmap.''\<rparr>,
      empty_job\<lparr>title := Some ''Product Manager'', company := Some ''Acme'',
        url := Some ''https://www.example.com/jobs/42/'', board_source := Some ''linkedin'',
        salary_range := Some ''$120k''\<rparr>])
   = Some [empty_job\<lparr>title := Some ''Product Manager'', company := Some ''Acme'',
        url := Some ''https://www.example.com/jobs/42/'', board_source := Some ''linkedin'',
        salary_range := Some ''$120k'', description := Some ''Own the roadmap.'',
        sources := Some [''linkedin''],
        all_urls := Some [''https://www.example.com/jobs/42/'']\<rparr>]"
proof -
  let ?tf = "\<lparr>urlparse = (\<lambda>u. (''www.example.com'', ''/jobs/42/'')), normalize_title = lower,
      normalize_company = lower, ratio = (\<lambda>s1 s2. if s1 = s2 then 1 else 0)\<rparr>"
  let ?a = "empty_job\<lparr>title := Some ''Product Manager'', company := Some ''Acme'',
        url := Some ''https://www.example.com/jobs/42/'', board_source := Some ''indeed'',
        description := Some ''Own the roadmap.''\<rparr>"
  let ?b = "empty_job\<lparr>title := Some ''Product Manager'', company := Some ''Acme'',
        url := Some ''https://www.example.com/jobs/42/'', board_source := Some ''linkedin'',
        salary_range := Some ''$120k''\<rparr>"
  have n: "normalize_url ?tf ''https://www.example.com/jobs/42/'' = ''example.com/jobs/42''"
    by (simp add: normalize_url_def rstrip_where_def lower_def lower_char_def)
  have ua: "normalize_url ?tf (or_default (url ?a) []) = ''example.com/jobs/42''"
    using n by (simp add: or_default_def empty_job_def)
  have ub: "normalize_url ?tf (or_default (url ?b) []) = ''example.com/jobs/42''"
    using n by (simp add: or_default_def empty_job_def)
  have u: "''example.com/jobs/42'' \<noteq> []" by simp
  have f: "has_text (description ?a) \<and> has_text (salary_range ?b) \<or>
           has_text (salary_range ?a) \<and> has_text (description ?b)"
    by (simp add: has_text_def empty_job_def)
  have bd: "board_of ?a \<noteq> board_of ?b"
    by (simp add: board_of_def or_default_def empty_job_def)
  have srt: "sort_key (\<lambda>j. - richness_score j) [?a, ?b] = [?b, ?a]"
    by (simp add: richness_example)
  have mg: "merge_group [?a, ?b] = Some (empty_job\<lparr>title := Some ''Product Manager'',
        company := Some ''Acme'', url := Some ''https://www.example.com/jobs/42/'',
        board_source := Some ''linkedin'', salary_range := Some ''$120k'',
        description := Some ''Own the roadmap.'', sources := Some [''linkedin'', ''indeed''],
        all_urls := Some [''https://www.example.com/jobs/42/'']\<rparr>)"
    apply (simp add: merge_group_def srt del: sort_key_simps)
    apply (simp add: backfill_def Let_def board_of_def or_default_def has_text_def is_true_def
        empty_job_def)
    done
  let ?eng = "DeduplicationEngine_init (85 / 100) (80 / 100)"
  let ?M = "empty_job\<lparr>title := Some ''Product Manager'',
        company := Some ''Acme'', url := Some ''https://www.example.com/jobs/42/'',
        board_source := Some ''linkedin'', salary_range := Some ''$120k'',
        description := Some ''Own the roadmap.'', sources := Some [''linkedin'', ''indeed''],
        all_urls := Some [''https://www.example.com/jobs/42/'']\<rparr>"
  from deduplicate_url_merge_sources [OF ua ub u f bd, of ?eng]
  obtain m where m: "map_option fst (deduplicate ?tf ?eng [?a, ?b]) = Some [m]"
    by blast
  have res: "map_option fst (deduplicate ?tf ?eng [?a, ?b]) = Some [?M\<lparr>sources := Some [board_of ?M]\<rparr>]"
    using ua ub u mg by (rule deduplicate_same_url_pair)
  have me: "m = ?M\<lparr>sources := Some [board_of ?M]\<rparr>"
    using m res by (simp only: option.inject list.inject)
  have fin: "?M\<lparr>sources := Some [board_of ?M]\<rparr> =
     empty_job\<lparr>title := Some ''Product Manager'', company := Some ''Acme'',
        url := Some ''https://www.example.com/jobs/42/'', board_source := Some ''linkedin'',
        salary_range := Some ''$120k'', description := Some ''Own the roadmap.'',
        sources := Some [''linkedin''],
        all_urls := Some [''https://www.example.com/jobs/42/'']\<rparr>"
    by (simp add: board_of_def or_default_def empty_job_def)
  have "map_option fst (deduplicate ?tf ?eng [?a, ?b]) = Some [m]"
    by (rule m)
  also have "m = empty_job\<lparr>title := Some ''Product Manager'', company := Some ''Acme'',
        url := Some ''https://www.example.com/jobs/42/'', board_source := Some ''linkedin'',
        salary_range := Some ''$120k'', description := Some ''Own the roadmap.'',
        sources := Some [''linkedin''],
        all_urls := Some [''https://www.example.com/jobs/42/'']\<rparr>"
    using me fin by (rule trans)
  finally show ?thesis
    using n by (rule_tac conjI)
qed

subsection \<open>apply\_engine.py: adding jobs to the queue\<close>

lemma app_job_id_new_record [simp]: "app_job_id (new_record stamp now_iso k j) = job_key j"
  by (simp add: new_record_def log_action_def)

lemma app_apply_type_new_record:
  "app_apply_type (new_record stamp now_iso k j) = or_default (apply_type j) ''quick-apply''"
  by (simp add: new_record_def log_action_def)

lemma add_loop_appends:
  "add_loop stamp now_iso jobs E a q = (n, q') \<Longrightarrow>
   \<exists>new. q' = q @ new \<and> n = a + length new \<and> distinct (map app_job_id new) \<and>
     (\<forall>r \<in> set new. app_job_id r \<notin> E \<and>
        (\<exists>j \<in> set jobs. \<exists>k. r = new_record stamp now_iso k j \<and> apply_type j \<noteq> Some ''skip'')) \<and>
     (\<forall>j \<in> set jobs. apply_type j \<noteq> Some ''skip'' \<longrightarrow> job_key j \<in> E \<union> app_job_id ` set new)"
proof (induction jobs arbitrary: E a q)
  case Nil
  then show ?case by simp
next
  case (Cons j jobs)
  show ?case
  proof (cases "job_key j \<in> E \<or> apply_type j = Some ''skip''")
    case True
    then have "add_loop stamp now_iso jobs E a q = (n, q')"
      using Cons.prems by (auto split: if_splits)
    from Cons.IH [OF this] obtain new where
      new: "q' = q @ new" "n = a + length new" "distinct (map app_job_id new)"
        "\<forall>r \<in> set new. app_job_id r \<notin> E \<and>
           (\<exists>j \<in> set jobs. \<exists>k. r = new_record stamp now_iso k j \<and> apply_type j \<noteq> Some ''skip'')"
        "\<forall>j \<in> set jobs. apply_type j \<noteq> Some ''skip'' \<longrightarrow> job_key j \<in> E \<union> app_job_id ` set new"
      by blast
    show ?thesis
      apply (rule exI [of _ new])
      using new True by auto
  next
    case False
    let ?r = "new_record stamp now_iso a j"
    have "add_loop stamp now_iso jobs (insert (job_key j) E) (a + 1) (q @ [?r]) = (n, q')"
      using Cons.prems False by simp
    from Cons.IH [OF this] obtain new where
      new: "q' = (q @ [?r]) @ new" "n = a + 1 + length new" "distinct (map app_job_id new)"
        "\<forall>r \<in> set new. app_job_id r \<notin> insert (job_key j) E \<and>
           (\<exists>j \<in> set jobs. \<exists>k. r = new_record stamp now_iso k j \<and> apply_type j \<noteq> Some ''skip'')"
        "\<forall>j' \<in> set jobs. apply_type j' \<noteq> Some ''skip'' \<longrightarrow>
           job_key j' \<in> insert (job_key j) E \<union> app_job_id ` set new"
      by blast
    have d: "distinct (map app_job_id (?r # new))"
      using new(3,4) by auto
    have m: "\<forall>r \<in> set (?r # new). app_job_id r \<notin> E \<and>
           (\<exists>j' \<in> set (j # jobs). \<exists>k. r = new_record stamp now_iso k j' \<and> apply_type j' \<noteq> Some ''skip'')"
      using new(4) False by auto
    have c: "\<forall>j' \<in> set (j # jobs). apply_type j' \<noteq> Some ''skip'' \<longrightarrow>
           job_key j' \<in> E \<union> app_job_id ` set (?r # new)"
      using new(5) by auto
    show ?thesis
      apply (rule exI [of _ "?r # new"])
      using new(1,2) d m c by simp
  qed
qed

lemma add_loop_nothing:
  "\<forall>j \<in> set jobs. apply_type j = Some ''skip'' \<or> job_key j \<in> E \<Longrightarrow>
   add_loop stamp now_iso jobs E a q = (a, q)"
  by (induction jobs) auto

lemma add_jobs_nothing:
  "\<forall>j \<in> set jobs. apply_type j = Some ''skip'' \<or> job_key j \<in> app_job_id ` set (queue s) \<Longrightarrow>
   add_jobs s stamp now_iso jobs = (0, save s)"
  by (simp add: add_jobs_def add_loop_nothing)

lemma queue_save [simp]: "queue (save s) = queue s"
  by (simp add: save_def)

lemma add_jobs_again_many:
  assumes "\<forall>j \<in> set jobs. apply_type j = Some ''skip'' \<or> job_key j \<in> app_job_id ` set (queue s)"
  shows "queue (((\<lambda>t. snd (add_jobs t stamp now_iso jobs)) ^^ m) s) = queue s"
proof (induction m)
  case 0
  then show ?case by simp
next
  case (Suc m)
  let ?t = "((\<lambda>t. snd (add_jobs t stamp now_iso jobs)) ^^ m) s"
  have "\<forall>j \<in> set jobs. apply_type j = Some ''skip'' \<or> job_key j \<in> app_job_id ` set (queue ?t)"
    using assms Suc.IH by simp
  then have "add_jobs ?t stamp now_iso jobs = (0, save ?t)"
    by (rule add_jobs_nothing)
  then show ?case using Suc.IH by simp
qed

text \<open>
  Claim C8. After \<^verbatim>\<open>add_jobs(jobs)\<close> has returned \<open>n\<close>, a second call with the
  same list, at any later time, returns 0 and leaves the queue as it is, and so does
  every further call. The first call appends \<open>n\<close> records with distinct job ids that
  were not in the queue, each made from a job of the list whose \<^verbatim>\<open>apply_type\<close> is not
  \<^verbatim>\<open>"skip"\<close>; no record made from a job with \<^verbatim>\<open>apply_type == "skip"\<close> is among
  them.
\<close>

theorem add_jobs_idempotent:
  assumes "add_jobs s stamp now_iso jobs = (n, s1)"
  shows "add_jobs s1 stamp' now_iso' jobs = (0, save s1) \<and>
         queue (save s1) = queue s1 \<and>
         queue (((\<lambda>t. snd (add_jobs t stamp' now_iso' jobs)) ^^ m) s1) = queue s1 \<and>
         (\<exists>new. queue s1 = queue s @ new \<and> length new = n \<and>
            distinct (map app_job_id new) \<and>
            (\<forall>r \<in> set new. app_job_id r \<notin> app_job_id ` set (queue s) \<and>
               (\<exists>j \<in> set jobs. \<exists>k. r = new_record stamp now_iso k j \<and>
                  apply_type j \<noteq> Some ''skip'')) \<and>
            (\<forall>j \<in> set jobs. apply_type j = Some ''skip'' \<longrightarrow>
               (\<forall>st io k. new_record st io k j \<notin> set new)))"
proof -
  obtain q where q: "add_loop stamp now_iso jobs (app_job_id ` set (queue s)) 0 (queue s) = (n, q)"
    and s1: "s1 = save (s\<lparr>queue := q\<rparr>)"
    using assms by (auto simp: add_jobs_def split: prod.splits)
  from add_loop_appends [OF q] obtain new where
    new: "q = queue s @ new" "n = length new" "distinct (map app_job_id new)"
      "\<forall>r \<in> set new. app_job_id r \<notin> app_job_id ` set (queue s) \<and>
         (\<exists>j \<in> set jobs. \<exists>k. r = new_record stamp now_iso k j \<and> apply_type j \<noteq> Some ''skip'')"
      "\<forall>j \<in> set jobs. apply_type j \<noteq> Some ''skip'' \<longrightarrow>
         job_key j \<in> app_job_id ` set (queue s) \<union> app_job_id ` set new"
    by auto
  have qs1: "queue s1 = queue s @ new"
    using s1 new(1) by simp
  have covered: "\<forall>j \<in> set jobs. apply_type j = Some ''skip'' \<or> job_key j \<in> app_job_id ` set (queue s1)"
    using new(5) qs1 by auto
  have again: "add_jobs s1 stamp' now_iso' jobs = (0, save s1)"
    using covered by (rule add_jobs_nothing)
  have many: "queue (((\<lambda>t. snd (add_jobs t stamp' now_iso' jobs)) ^^ m) s1) = queue s1"
    using covered by (rule add_jobs_again_many)
  have noskip: "\<forall>r \<in> set new. app_apply_type r \<noteq> ''skip''"
  proof
    fix r assume "r \<in> set new"
    with new(4) obtain j k where "r = new_record stamp now_iso k j" "apply_type j \<noteq> Some ''skip''"
      by blast
    then show "app_apply_type r \<noteq> ''skip''"
      by (cases "apply_type j") (auto simp: app_apply_type_new_record or_default_def)
  qed
  have skipped: "\<forall>j \<in> set jobs. apply_type j = Some ''skip'' \<longrightarrow>
                   (\<forall>st io k. new_record st io k j \<notin> set new)"
  proof (intro ballI impI allI)
    fix j st io k assume "j \<in> set jobs" "apply_type j = Some ''skip''"
    then have "app_apply_type (new_record st io k j) = ''skip''"
      by (simp add: app_apply_type_new_record or_default_def)
    then show "new_record st io k j \<notin> set new"
      using noskip by auto
  qed
  show ?thesis
    using again many qs1 new(2,3,4) skipped by auto
qed

theorem add_jobs_idempotent_witness:
  "add_jobs \<lparr>queue = [], file_writes = []\<rparr> ''20260105090000'' ''2026-01-05T09:00:00''
     [empty_job\<lparr>raw_id := Some ''a1'', apply_type := Some ''quick-apply''\<rparr>,
      empty_job\<lparr>raw_id := Some ''b2'', apply_type := Some ''skip''\<rparr>]
   = (1, \<lparr>queue = [new_record ''20260105090000'' ''2026-01-05T09:00:00'' 0
                       (empty_job\<lparr>raw_id := Some ''a1'', apply_type := Some ''quick-apply''\<rparr>)],
          file_writes = [[new_record ''20260105090000'' ''2026-01-05T09:00:00'' 0
                       (empty_job\<lparr>raw_id := Some ''a1'', apply_type := Some ''quick-apply''\<rparr>)]]\<rparr>) \<and>
   fst (add_jobs
      \<lparr>queue = [new_record ''20260105090000'' ''2026-01-05T09:00:00'' 0
                       (empty_job\<lparr>raw_id := Some ''a1'', apply_type := Some ''quick-apply''\<rparr>)],
          file_writes = [[new_record ''20260105090000'' ''2026-01-05T09:00:00'' 0
                       (empty_job\<lparr>raw_id := Some ''a1'', apply_type := Some ''quick-apply''\<rparr>)]]\<rparr>
      ''20260105100000'' ''2026-01-05T10:00:00''
     [empty_job\<lparr>raw_id := Some ''a1'', apply_type := Some ''quick-apply''\<rparr>,
      empty_job\<lparr>raw_id := Some ''b2'', apply_type := Some ''skip''\<rparr>]) = 0"
proof -
  let ?jobs = "[empty_job\<lparr>raw_id := Some ''a1'', apply_type := Some ''quick-apply''\<rparr>,
      empty_job\<lparr>raw_id := Some ''b2'', apply_type := Some ''skip''\<rparr>]"
  let ?r = "new_record ''20260105090000'' ''2026-01-05T09:00:00'' 0
              (empty_job\<lparr>raw_id := Some ''a1'', apply_type := Some ''quick-apply''\<rparr>)"
  have first: "add_jobs \<lparr>queue = [], file_writes = []\<rparr> ''20260105090000'' ''2026-01-05T09:00:00'' ?jobs
     = (1, \<lparr>queue = [?r], file_writes = [[?r]]\<rparr>)"
    by (simp add: add_jobs_def save_def job_key_def has_text_def empty_job_def)
  show ?thesis
    using first add_jobs_idempotent [OF first, of "''20260105100000''" "''2026-01-05T10:00:00''" 0]
    by simp
qed

subsection \<open>material\_manager.py: the variant score\<close>



subsection \<open>apply\_engine.py: updating the status of an unknown application\<close>

lemma update_first_None: "update_first f ident q = None \<longleftrightarrow> ident \<notin> app_id ` set q"
  by (induction q) auto

lemma app_id_new_record: "app_id (new_record stamp now_iso k j) = ''app_'' @ stamp @ ''_'' @ str_nat k"
  by (simp add: new_record_def log_action_def)

text \<open>
  Claim C10. For an id that no record of the queue has, \<^verbatim>\<open>update_status\<close> returns
  false and leaves the queue object as it was: no record changes (no status, no log
  entry, no keyword applied) and nothing is written to the queue file. It returns true
  exactly when a record with the id exists.
\<close>

theorem update_status_unknown_id:
  "(ident \<notin> app_id ` set (queue s) \<longrightarrow>
      update_status s now ident status kwargs kwargs_str = (False, s)) \<and>
   (fst (update_status s now ident status kwargs kwargs_str) \<longleftrightarrow>
      (\<exists>app \<in> set (queue s). app_id app = ident))"
proof (cases "update_first (change_status now status kwargs kwargs_str) ident (queue s)")
  case None
  then show ?thesis
    using update_first_None [of "change_status now status kwargs kwargs_str" ident "queue s"]
    by (auto simp: update_status_def)
next
  case (Some q)
  then show ?thesis
    using update_first_None [of "change_status now status kwargs kwargs_str" ident "queue s"]
    by (auto simp: update_status_def)
qed

theorem update_status_unknown_id_witness:
  "''app_missing'' \<notin> app_id ` set (queue
      \<lparr>queue = [new_record ''20260105090000'' ''2026-01-05T09:00:00'' 0 empty_job],
       file_writes = []\<rparr>) \<and>
   update_status
      \<lparr>queue = [new_record ''20260105090000'' ''2026-01-05T09:00:00'' 0 empty_job],
       file_writes = []\<rparr>
      ''2026-01-05T09:30:00'' ''app_missing'' ''filling'' [Kw_materials_ready True] ''{}''
   = (False,
      \<lparr>queue = [new_record ''20260105090000'' ''2026-01-05T09:00:00'' 0 empty_job],
       file_writes = []\<rparr>) \<and>
   fst (update_status
      \<lparr>queue = [new_record ''20260105090000'' ''2026-01-05T09:00:00'' 0 empty_job],
       file_writes = []\<rparr>
      ''2026-01-05T09:30:00'' ''app_20260105090000_0'' ''filling'' [] ''{}'')"
  using
    update_status_unknown_id [of "''app_missing''"
      "\<lparr>queue = [new_record ''20260105090000'' ''2026-01-05T09:00:00'' 0 empty_job],
        file_writes = []\<rparr>"
      "''2026-01-05T09:30:00''" "''filling''" "[Kw_materials_ready True]" "''{}''"]
    update_status_unknown_id [of "''app_20260105090000_0''"
      "\<lparr>queue = [new_record ''20260105090000'' ''2026-01-05T09:00:00'' 0 empty_job],
        file_writes = []\<rparr>"
      "''2026-01-05T09:30:00''" "''filling''" "[]" "''{}''"]
  by (simp add: app_id_new_record)

end
